theory Spec2Isabelle
  imports Main "HOL-Library.Word"
begin

section \<open>LibOrder.sol: the order hash\<close>

subsection \<open>Solidity values and their tightly packed encoding\<close>

type_synonym byte = "8 word"
type_synonym bytes = "8 word list"
type_synonym address = "160 word"
type_synonym uint256 = "256 word"
type_synonym bytes32 = "256 word"

text \<open>
  A value of a fixed-width Solidity type occupies its natural width, most significant
  byte first: 20 bytes for an \<open>address\<close>, 32 bytes for a \<open>uint256\<close> or a \<open>bytes32\<close>.
\<close>

definition word_bytes :: "'a::len word \<Rightarrow> bytes" where
  "word_bytes w = map (\<lambda>i. ucast (drop_bit (8 * i) w)) (rev [0..<LENGTH('a) div 8])"

definition string_bytes :: "string \<Rightarrow> bytes" where
  "string_bytes s = map of_char s"

text \<open>
  In Solidity 0.4 the call \<open>keccak256(a, b, ...)\<close> hashes the tightly packed encoding of
  its arguments: every argument at its own width, without padding and without length
  prefix, one after the other.
\<close>

datatype arg =
    Address address
  | Uint256 uint256
  | Bytes32 bytes32
  | Bytes bytes
  | String string

fun encode :: "arg \<Rightarrow> bytes" where
  "encode (Address a) = word_bytes a"
| "encode (Uint256 n) = word_bytes n"
| "encode (Bytes32 h) = word_bytes h"
| "encode (Bytes b) = b"
| "encode (String s) = string_bytes s"

definition encodePacked :: "arg list \<Rightarrow> bytes" where
  "encodePacked args = concat (map encode args)"

text \<open>
  The hash function itself is a primitive of the virtual machine. The model takes it as
  the parameter \<open>H\<close>, from byte strings to 256-bit words.
\<close>

type_synonym hash = "bytes \<Rightarrow> bytes32"

definition keccak256 :: "hash \<Rightarrow> arg list \<Rightarrow> bytes32" where
  "keccak256 H args = H (encodePacked args)"

subsection \<open>The contract\<close>

definition DOMAIN_SEPARATOR_SCHEMA :: string where
  "DOMAIN_SEPARATOR_SCHEMA = ''DomainSeparator(address contract)''"

definition DOMAIN_SEPARATOR_SCHEMA_HASH :: "hash \<Rightarrow> bytes32" where
  "DOMAIN_SEPARATOR_SCHEMA_HASH H = keccak256 H [String DOMAIN_SEPARATOR_SCHEMA]"

definition ORDER_SCHEMA :: "string list" where
  "ORDER_SCHEMA =
    [''Order('',
     ''address makerAddress,'',
     ''address takerAddress,'',
     ''address feeRecipientAddress,'',
     ''address senderAddress,'',
     ''uint256 makerAssetAmount,'',
     ''uint256 takerAssetAmount,'',
     ''uint256 makerFee,'',
     ''uint256 takerFee,'',
     ''uint256 expirationTimeSeconds,'',
     ''uint256 salt,'',
     ''bytes makerAssetData,'',
     ''bytes takerAssetData,'',
     '')'']"

definition ORDER_SCHEMA_HASH :: "hash \<Rightarrow> bytes32" where
  "ORDER_SCHEMA_HASH H = keccak256 H (map String ORDER_SCHEMA)"

record Order =
  makerAddress :: address
  takerAddress :: address
  feeRecipientAddress :: address
  senderAddress :: address
  makerAssetAmount :: uint256
  takerAssetAmount :: uint256
  makerFee :: uint256
  takerFee :: uint256
  expirationTimeSeconds :: uint256
  salt :: uint256
  makerAssetData :: bytes
  takerAssetData :: bytes

text \<open>
  The arguments of the inner \<open>keccak256\<close> call of \<open>getOrderHash\<close>, in the order of the
  source, and the byte string they are packed into.
\<close>

definition orderArgs :: "hash \<Rightarrow> Order \<Rightarrow> arg list" where
  "orderArgs H order =
    [Address (makerAddress order),
     Address (takerAddress order),
     Address (feeRecipientAddress order),
     Address (senderAddress order),
     Uint256 (makerAssetAmount order),
     Uint256 (takerAssetAmount order),
     Uint256 (makerFee order),
     Uint256 (takerFee order),
     Uint256 (expirationTimeSeconds order),
     Uint256 (salt order),
     Bytes32 (keccak256 H [Bytes (makerAssetData order)]),
     Bytes32 (keccak256 H [Bytes (takerAssetData order)])]"

definition orderEncoding :: "hash \<Rightarrow> Order \<Rightarrow> bytes" where
  "orderEncoding H order = encodePacked (orderArgs H order)"

text \<open>
  The arguments of the outer call; \<open>this\<close> is \<open>address(this)\<close>, the address of the
  contract instance that runs the code.
\<close>

definition hashArgs :: "hash \<Rightarrow> address \<Rightarrow> Order \<Rightarrow> arg list" where
  "hashArgs H this order =
    [Bytes32 (DOMAIN_SEPARATOR_SCHEMA_HASH H),
     Bytes32 (keccak256 H [Address this]),
     Bytes32 (ORDER_SCHEMA_HASH H),
     Bytes32 (keccak256 H (orderArgs H order))]"

definition getOrderHash :: "hash \<Rightarrow> address \<Rightarrow> Order \<Rightarrow> bytes32" where
  "getOrderHash H this order = keccak256 H (hashArgs H this order)"

text \<open>
  The byte string of the outer call, and the fixed-width part of the inner one (the four
  addresses and the six integers, before the two hashes of the asset data).
\<close>

definition hashInput :: "hash \<Rightarrow> address \<Rightarrow> Order \<Rightarrow> bytes" where
  "hashInput H this order = encodePacked (hashArgs H this order)"

definition fixedFieldEncoding :: "Order \<Rightarrow> bytes" where
  "fixedFieldEncoding order =
     word_bytes (makerAddress order) @ word_bytes (takerAddress order) @
     word_bytes (feeRecipientAddress order) @ word_bytes (senderAddress order) @
     word_bytes (makerAssetAmount order) @ word_bytes (takerAssetAmount order) @
     word_bytes (makerFee order) @ word_bytes (takerFee order) @
     word_bytes (expirationTimeSeconds order) @ word_bytes (salt order)"

definition bytes_at :: "nat \<Rightarrow> nat \<Rightarrow> bytes \<Rightarrow> bytes" where
  "bytes_at off n bs = take n (drop off bs)"

text \<open>
  The function is declared \<open>internal view\<close>: it runs in the context of a contract
  instance, reads \<open>address(this)\<close> from it, and has the instance's storage in scope.
  The call takes the execution context and the storage and returns the storage with
  the result.
\<close>

record evm_context =
  address_this :: address
  msg_sender :: address
  block_number :: uint256
  block_timestamp :: uint256

type_synonym storage = "uint256 \<Rightarrow> uint256"

definition getOrderHash_view ::
  "hash \<Rightarrow> evm_context \<Rightarrow> storage \<Rightarrow> Order \<Rightarrow> bytes32 \<times> storage" where
  "getOrderHash_view H ctx st order = (getOrderHash H (address_this ctx) order, st)"

text \<open>
  The order hash as the specification composes it: the first component is the
  domain-separator hash \<open>H(H(domain-schema-constant) \<parallel> H(v))\<close>.
\<close>

definition domainSeparatorHash_spec :: "hash \<Rightarrow> address \<Rightarrow> bytes32" where
  "domainSeparatorHash_spec H v =
     H (word_bytes (H (string_bytes DOMAIN_SEPARATOR_SCHEMA)) @ word_bytes (H (word_bytes v)))"

definition orderHash_spec :: "hash \<Rightarrow> address \<Rightarrow> Order \<Rightarrow> bytes32" where
  "orderHash_spec H v order =
     H (word_bytes (domainSeparatorHash_spec H v) @
        word_bytes (H (word_bytes v)) @
        word_bytes (ORDER_SCHEMA_HASH H) @
        word_bytes (H (fixedFieldEncoding order @
                       word_bytes (H (makerAssetData order)) @
                       word_bytes (H (takerAssetData order)))))"

text \<open>Two byte strings on which the hash function does not collide.\<close>

definition collision_free :: "hash \<Rightarrow> bytes \<Rightarrow> bytes \<Rightarrow> bool" where
  "collision_free H x y = (H x = H y \<longrightarrow> x = y)"

section \<open>The order status tracker\<close>

text \<open>
  Modelled from the spec: the members of the status enumeration (section 4.3). The source
  stores the status in \<open>OrderInfo\<close> as a \<open>uint8\<close> code and refers to LibStatus for its
  meaning; LibStatus is not among the sources.
\<close>

datatype OrderStatus = UNFILLED | PARTIALLY_FILLED | FULLY_FILLED | EXPIRED | CANCELLED | INVALID

record OrderInfo =
  orderStatus :: OrderStatus
  orderHash :: bytes32
  orderTakerAssetFilledAmount :: uint256

text \<open>
  Modelled from the spec: the state of the Order Status Tracker, one record per order
  hash (section 4.3). The settlement code that keeps the \<open>OrderInfo\<close> of an order hash is
  not among the sources. A hash that has not been written yet has no entry.
\<close>

type_synonym tracker = "bytes32 \<rightharpoonup> OrderInfo"

text \<open>
  Modelled from the spec: the typed rejections of a fill (section 7): a fill against a
  terminal state, and a fill overshoot.
\<close>

datatype rejection = TerminalState OrderStatus | FillOvershoot

text \<open>
  Modelled from the spec: the record of a hash on its first reference (section 3): the
  default status, which is the initial state \<open>UNFILLED\<close> of the state machine, and a
  filled amount of zero.
\<close>

definition defaultInfo :: "bytes32 \<Rightarrow> OrderInfo" where
  "defaultInfo h =
     \<lparr>orderStatus = UNFILLED, orderHash = h, orderTakerAssetFilledAmount = 0\<rparr>"

text \<open>
  Modelled from the spec: the record that the tracker holds for a hash, created on the
  first reference (section 3).
\<close>

definition storedInfo :: "tracker \<Rightarrow> bytes32 \<Rightarrow> OrderInfo" where
  "storedInfo t h = (case t h of Some info \<Rightarrow> info | None \<Rightarrow> defaultInfo h)"

text \<open>
  Modelled from the spec: the expiration time of the order has passed (section 4.3).
  The time of a call is its parameter \<open>now\<close>, in seconds.
\<close>

definition expired :: "Order \<Rightarrow> uint256 \<Rightarrow> bool" where
  "expired order now = (expirationTimeSeconds order < now)"

text \<open>
  Modelled from the spec: the status computed on read (section 4.3). The transition to
  \<open>EXPIRED\<close> is taken from every state and whatever the filled amount, when the
  expiration time has passed; it is not stored. \<open>CANCELLED\<close> and \<open>INVALID\<close> are terminal:
  no transition leaves them.
\<close>

definition statusAt :: "Order \<Rightarrow> uint256 \<Rightarrow> OrderStatus \<Rightarrow> OrderStatus" where
  "statusAt order now status =
     (if status = CANCELLED \<or> status = INVALID then status
      else if expired order now then EXPIRED
      else status)"

text \<open>
  Modelled from the spec: \<open>getOrderInfo(orderHash)\<close> (section 6). The tracker is keyed by
  the order hash alone; the order that a hash identifies, whose \<open>takerAssetAmount\<close> and
  \<open>expirationTimeSeconds\<close> the tracker needs, is given by the parameter \<open>orderOf\<close>.
\<close>

definition getOrderInfo ::
  "(bytes32 \<Rightarrow> Order) \<Rightarrow> uint256 \<Rightarrow> tracker \<Rightarrow> bytes32 \<Rightarrow> OrderInfo" where
  "getOrderInfo orderOf now t h =
     (storedInfo t h)\<lparr>orderStatus := statusAt (orderOf h) now (orderStatus (storedInfo t h))\<rparr>"

text \<open>
  Modelled from the spec: the states in which no further fill is accepted (sections 4.3
  and 7): \<open>FULLY_FILLED\<close> and the invalidation states.
\<close>

definition terminal :: "OrderStatus \<Rightarrow> bool" where
  "terminal s = (s = FULLY_FILLED \<or> s = EXPIRED \<or> s = CANCELLED \<or> s = INVALID)"

text \<open>
  Modelled from the spec: the transitions that a new filled amount takes (section 4.3):
  to \<open>FULLY_FILLED\<close> when it equals \<open>takerAssetAmount\<close>, to \<open>PARTIALLY_FILLED\<close> when it
  lies strictly between zero and \<open>takerAssetAmount\<close>; otherwise the status stays.
\<close>

definition fillStatus :: "Order \<Rightarrow> OrderStatus \<Rightarrow> uint256 \<Rightarrow> OrderStatus" where
  "fillStatus order status filled =
     (if filled = takerAssetAmount order then FULLY_FILLED
      else if 0 < filled then PARTIALLY_FILLED
      else status)"

text \<open>
  Modelled from the spec: \<open>recordFill(orderHash, amount)\<close> (sections 6 and 7), which gives
  the updated \<open>OrderInfo\<close> or a rejection. A fill against a terminal state is rejected,
  and so is a fill that would push the filled amount above \<open>takerAssetAmount\<close>; a
  rejected fill returns no new state. The sum of the two amounts is taken in the natural
  numbers: it does not wrap around.
\<close>

definition recordFill ::
  "(bytes32 \<Rightarrow> Order) \<Rightarrow> uint256 \<Rightarrow> tracker \<Rightarrow> bytes32 \<Rightarrow> uint256
     \<Rightarrow> rejection + (OrderInfo \<times> tracker)" where
  "recordFill orderOf now t h amount =
     (let info = getOrderInfo orderOf now t h;
          filled = orderTakerAssetFilledAmount info
      in if terminal (orderStatus info) then Inl (TerminalState (orderStatus info))
         else if unat (takerAssetAmount (orderOf h)) < unat filled + unat amount
           then Inl FillOvershoot
         else let info' = info\<lparr>orderStatus :=
                                   fillStatus (orderOf h) (orderStatus info) (filled + amount),
                                 orderTakerAssetFilledAmount := filled + amount\<rparr>
              in Inr (info', t(h \<mapsto> info')))"

text \<open>
  Modelled from the spec: a sequence of fill operations against one order hash (section
  8), each with the time of the call and the amount; a rejected fill changes nothing.
\<close>

fun recordFills ::
  "(bytes32 \<Rightarrow> Order) \<Rightarrow> tracker \<Rightarrow> bytes32 \<Rightarrow> (uint256 \<times> uint256) list \<Rightarrow> tracker" where
  "recordFills orderOf t h [] = t"
| "recordFills orderOf t h ((now, amount) # fills) =
     (case recordFill orderOf now t h amount of
        Inl rejected \<Rightarrow> recordFills orderOf t h fills
      | Inr (info, t') \<Rightarrow> recordFills orderOf t' h fills)"



section \<open>browser\_ws\_orderbook\_channel.ts\<close>

text \<open>
  The options of a subscription, the payload of a message and the identity of a handler
  are opaque to the channel: they are the type parameters \<open>'o\<close>, \<open>'p\<close> and \<open>'h\<close>. A
  handler is an object with the callbacks \<open>onSnapshot\<close>, \<open>onUpdate\<close>, \<open>onError\<close> and
  \<open>onClose\<close>; the model records each invocation of a callback as an event, in the order
  of the invocations. The first argument of every callback is the channel itself and is
  left out of the event.
\<close>

datatype error = Error string

record ('o, 'h) Subscription =
  subscriptionOpts :: 'o
  handler :: 'h

datatype ('o, 'h, 'p) event =
    OnSnapshot 'h 'o 'p
  | OnUpdate 'h 'o 'p
  | OnError 'h 'o error
  | OnClose 'h 'o

datatype OrderbookChannelMessageTypes = Snapshot | Update | Unknown

record 'p OrderbookChannelMessage =
  type :: OrderbookChannelMessageTypes
  requestId :: int
  payload :: 'p

record 'o subscribeMessage =
  type :: string
  channel :: string
  requestId :: int
  payload :: 'o

text \<open>
  The socket of the \<open>websocket\<close> package, as far as the channel uses it: its
  \<open>readyState\<close>, the subscribe message that the \<open>onopen\<close> callback installed by
  \<open>subscribe\<close> holds and sends when the socket opens, and the messages handed to
  \<open>send\<close>.
\<close>

datatype readyState = CONNECTING | OPEN | CLOSING | CLOSED

record 'o w3cwebsocket =
  url :: string
  readyState :: readyState
  onopen :: "'o subscribeMessage"
  sent :: "'o subscribeMessage list"

record ('o, 'h) BrowserWebSocketOrderbookChannel =
  apiEndpointUrl :: string
  clientIfExists :: "'o w3cwebsocket option"
  subscriptions :: "('o, 'h) Subscription list"

record message =
  data :: "string option"

definition sendMessage ::
  "('o, 'h) BrowserWebSocketOrderbookChannel \<Rightarrow> 'o subscribeMessage
     \<Rightarrow> ('o, 'h) BrowserWebSocketOrderbookChannel" where
  "sendMessage ch m =
     (case clientIfExists ch of
        Some client \<Rightarrow>
          if readyState client = OPEN
          then ch\<lparr>clientIfExists := Some (client\<lparr>sent := sent client @ [m]\<rparr>)\<rparr>
          else ch
      | None \<Rightarrow> ch)"

text \<open>
  The two assertions on the arguments are not among the sources: they are the
  parameters \<open>isOrderbookChannelSubscriptionOpts\<close> and \<open>isOrderbookChannelHandler\<close>,
  and a failed assertion throws before anything else happens.
\<close>

definition subscribe ::
  "('o \<Rightarrow> bool) \<Rightarrow> ('h \<Rightarrow> bool) \<Rightarrow> ('o, 'h) BrowserWebSocketOrderbookChannel \<Rightarrow> 'o \<Rightarrow> 'h
     \<Rightarrow> error + ('o, 'h) BrowserWebSocketOrderbookChannel" where
  "subscribe isOrderbookChannelSubscriptionOpts isOrderbookChannelHandler ch opts h =
     (if \<not> isOrderbookChannelSubscriptionOpts opts then Inl (Error ''subscriptionOpts'')
      else if \<not> isOrderbookChannelHandler h then Inl (Error ''handler'')
      else
        let newSubscription = \<lparr>subscriptionOpts = opts, handler = h\<rparr>;
            ch1 = ch\<lparr>subscriptions := subscriptions ch @ [newSubscription]\<rparr>;
            subscribeMessage = \<lparr>subscribeMessage.type = ''subscribe'', channel = ''orderbook'',
                                 requestId = int (length (subscriptions ch1)) - 1, payload = opts\<rparr>
        in case clientIfExists ch1 of
             None \<Rightarrow>
               Inr (ch1\<lparr>clientIfExists :=
                          Some \<lparr>url = apiEndpointUrl ch1, readyState = CONNECTING,
                                onopen = subscribeMessage, sent = []\<rparr>\<rparr>)
           | Some client \<Rightarrow> Inr (sendMessage ch1 subscribeMessage))"

text \<open>
  \<open>this._subscriptions[requestId]\<close>: the element at that index, and \<open>undefined\<close> where
  the list has none.
\<close>

definition subscriptionAt ::
  "('o, 'h) BrowserWebSocketOrderbookChannel \<Rightarrow> int \<Rightarrow> ('o, 'h) Subscription option" where
  "subscriptionAt ch i =
     (if 0 \<le> i \<and> i < int (length (subscriptions ch)) then Some (subscriptions ch ! nat i)
      else None)"

text \<open>
  A callback is code of the caller: it returns or it throws. What a callback does at an
  invocation is the parameter \<open>callbacks\<close>: from the invocations made so far for the
  message and the invocation at hand to the error thrown, if any.
\<close>

type_synonym ('o, 'h, 'p) callbacks =
  "('o, 'h, 'p) event list \<Rightarrow> ('o, 'h, 'p) event \<Rightarrow> error option"

text \<open>
  Invocations made one after the other, as \<open>_.forEach\<close> makes them: the first callback
  that throws ends the iteration, and the error leaves it. The result is the record of the
  invocations made, that one included, and the error thrown.
\<close>

fun invoke ::
  "('o, 'h, 'p) callbacks \<Rightarrow> ('o, 'h, 'p) event list \<Rightarrow> ('o, 'h, 'p) event list
     \<Rightarrow> ('o, 'h, 'p) event list \<times> error option" where
  "invoke callbacks made [] = (made, None)"
| "invoke callbacks made (ev # evs) =
     (case callbacks made ev of
        Some thrown \<Rightarrow> (made @ [ev], Some thrown)
      | None \<Rightarrow> invoke callbacks (made @ [ev]) evs)"

definition alertAllHandlersToError ::
  "('o, 'h, 'p) callbacks \<Rightarrow> ('o, 'h, 'p) event list \<Rightarrow> ('o, 'h) BrowserWebSocketOrderbookChannel
     \<Rightarrow> error \<Rightarrow> ('o, 'h, 'p) event list \<times> error option" where
  "alertAllHandlersToError callbacks made ch e =
     invoke callbacks made
       (map (\<lambda>subscription. OnError (handler subscription) (subscriptionOpts subscription) e)
          (subscriptions ch))"

text \<open>
  The parser of the messages is not among the sources: it is the parameter \<open>parse\<close>,
  which returns the parsed message or throws.

  The body of the \<open>try\<close> block of \<open>_handleWebSocketMessage\<close>, for a message with data: the
  invocations it makes, and the error that leaves it, thrown by the parser or by a
  callback.
\<close>

definition routeMessage ::
  "(string \<Rightarrow> error + 'p OrderbookChannelMessage) \<Rightarrow> ('o, 'h, 'p) callbacks
     \<Rightarrow> ('o, 'h) BrowserWebSocketOrderbookChannel \<Rightarrow> string
     \<Rightarrow> ('o, 'h, 'p) event list \<times> error option" where
  "routeMessage parse callbacks ch utf8Data =
     (case parse utf8Data of
        Inl thrown \<Rightarrow> ([], Some thrown)
      | Inr parserResult \<Rightarrow>
          (case subscriptionAt ch (OrderbookChannelMessage.requestId parserResult) of
             None \<Rightarrow>
               alertAllHandlersToError callbacks [] ch
                 (Error (''Message has unknown requestId: '' @ utf8Data))
           | Some subscription \<Rightarrow>
               (case OrderbookChannelMessage.type parserResult of
                  Snapshot \<Rightarrow>
                    invoke callbacks []
                      [OnSnapshot (handler subscription) (subscriptionOpts subscription)
                         (OrderbookChannelMessage.payload parserResult)]
                | Update \<Rightarrow>
                    invoke callbacks []
                      [OnUpdate (handler subscription) (subscriptionOpts subscription)
                         (OrderbookChannelMessage.payload parserResult)]
                | _ \<Rightarrow>
                    invoke callbacks []
                      [OnError (handler subscription) (subscriptionOpts subscription)
                         (Error (''Message has unknown type parameter: '' @ utf8Data))])))"

text \<open>
  \<open>_handleWebSocketMessage\<close>: a message without data alerts all handlers, outside the
  \<open>try\<close> block; an error that leaves the \<open>try\<close> block is caught, and all handlers are
  alerted to it. The result is the record of the invocations made for the message and
  the error that leaves the function.
\<close>

definition handleWebSocketMessage ::
  "(string \<Rightarrow> error + 'p OrderbookChannelMessage) \<Rightarrow> ('o, 'h, 'p) callbacks
     \<Rightarrow> ('o, 'h) BrowserWebSocketOrderbookChannel \<Rightarrow> message
     \<Rightarrow> ('o, 'h, 'p) event list \<times> error option" where
  "handleWebSocketMessage parse callbacks ch msg =
     (case data msg of
        None \<Rightarrow>
          alertAllHandlersToError callbacks [] ch (Error ''Message does not contain utf8Data'')
      | Some utf8Data \<Rightarrow>
          (case routeMessage parse callbacks ch utf8Data of
             (made, None) \<Rightarrow> (made, None)
           | (made, Some error) \<Rightarrow> alertAllHandlersToError callbacks made ch error))"

text \<open>The invocations of callbacks of the handlers that a message causes.\<close>

definition invoked ::
  "(string \<Rightarrow> error + 'p OrderbookChannelMessage) \<Rightarrow> ('o, 'h, 'p) callbacks
     \<Rightarrow> ('o, 'h) BrowserWebSocketOrderbookChannel \<Rightarrow> message \<Rightarrow> ('o, 'h, 'p) event list" where
  "invoked parse callbacks ch msg = fst (handleWebSocketMessage parse callbacks ch msg)"

definition errorAlerted :: "('o, 'h, 'p) event list \<Rightarrow> ('o, 'h) Subscription \<Rightarrow> bool" where
  "errorAlerted evs s = (\<exists>e. OnError (handler s) (subscriptionOpts s) e \<in> set evs)"

fun isData :: "('o, 'h, 'p) event \<Rightarrow> bool" where
  "isData (OnSnapshot h opts p) = True"
| "isData (OnUpdate h opts p) = True"
| "isData _ = False"

text \<open>No \<open>onError\<close> callback throws.\<close>

definition onErrorReturns :: "('o, 'h, 'p) callbacks \<Rightarrow> bool" where
  "onErrorReturns callbacks = (\<forall>made h opts e. callbacks made (OnError h opts e) = None)"

text \<open>
  The message has no data, or the parser throws on it, or the parsed \<open>requestId\<close> is not
  the index of a subscription.
\<close>

definition unroutable ::
  "(string \<Rightarrow> error + 'p OrderbookChannelMessage) \<Rightarrow> ('o, 'h) BrowserWebSocketOrderbookChannel
     \<Rightarrow> message \<Rightarrow> bool" where
  "unroutable parse ch msg =
     (case data msg of
        None \<Rightarrow> True
      | Some utf8Data \<Rightarrow>
          (case parse utf8Data of
             Inl thrown \<Rightarrow> True
           | Inr parserResult \<Rightarrow>
               subscriptionAt ch (OrderbookChannelMessage.requestId parserResult) = None))"

section \<open>Examples\<close>

text \<open>Two verifying instances, the order of the concrete vector of the spec (amounts 1000 and
  2000), and the same order with another salt.\<close>

definition exchange1 :: address where
  "exchange1 = 0x1234567890abcdef1234567890abcdef12345678"

definition exchange2 :: address where
  "exchange2 = 0x1234567890abcdef1234567890abcdef12345679"

definition example_order :: Order where
  "example_order =
     \<lparr>makerAddress = 0x11, takerAddress = 0, feeRecipientAddress = 0x33, senderAddress = 0,
      makerAssetAmount = 1000, takerAssetAmount = 2000, makerFee = 1, takerFee = 2,
      expirationTimeSeconds = 1600000000, salt = 42,
      makerAssetData = [0xf4, 0x72, 0x61, 0xb0], takerAssetData = [0xf4, 0x72, 0x61, 0xb0, 0x01]\<rparr>"

definition example_order2 :: Order where
  "example_order2 = example_order\<lparr>salt := 43\<rparr>"

text \<open>
  The orders that the tracker of the examples knows: every hash identifies the order of
  the concrete vector, or that order with a \<open>takerAssetAmount\<close> of zero.
\<close>

definition example_orders :: "bytes32 \<Rightarrow> Order" where
  "example_orders h = example_order"


text \<open>A channel with one subscription on an open socket, and a parser, for the examples.\<close>

definition example_channel :: "(string, nat) BrowserWebSocketOrderbookChannel" where
  "example_channel =
     \<lparr>apiEndpointUrl = ''ws://relayer.example/v0'',
      clientIfExists = Some \<lparr>url = ''ws://relayer.example/v0'', readyState = OPEN,
        onopen = \<lparr>subscribeMessage.type = ''subscribe'', channel = ''orderbook'', requestId = 0,
                   payload = ''ZRX/WETH''\<rparr>,
        sent = [\<lparr>subscribeMessage.type = ''subscribe'', channel = ''orderbook'', requestId = 0,
                  payload = ''ZRX/WETH''\<rparr>]\<rparr>,
      subscriptions = [\<lparr>subscriptionOpts = ''ZRX/WETH'', handler = 1\<rparr>]\<rparr>"

definition example_parse :: "string \<Rightarrow> error + string OrderbookChannelMessage" where
  "example_parse utf8Data =
     (if utf8Data = ''snapshot 0''
      then Inr \<lparr>OrderbookChannelMessage.type = Snapshot, requestId = 0, payload = ''bids''\<rparr>
      else if utf8Data = ''update 0''
      then Inr \<lparr>OrderbookChannelMessage.type = Update, requestId = 0, payload = ''order''\<rparr>
      else if utf8Data = ''update 7''
      then Inr \<lparr>OrderbookChannelMessage.type = Update, requestId = 7, payload = ''order''\<rparr>
      else Inl (Error ''SyntaxError''))"


text \<open>
  A channel with two subscriptions, callbacks that all return, callbacks of which the
  \<open>onError\<close> of the first handler throws, and callbacks of which the \<open>onSnapshot\<close> of
  the first handler throws.
\<close>

definition example_channel2 :: "(string, nat) BrowserWebSocketOrderbookChannel" where
  "example_channel2 =
     example_channel\<lparr>subscriptions := [\<lparr>subscriptionOpts = ''ZRX/WETH'', handler = 1\<rparr>,
                                       \<lparr>subscriptionOpts = ''DAI/WETH'', handler = 2\<rparr>]\<rparr>"

definition returning :: "(string, nat, string) callbacks" where
  "returning made ev = None"

definition first_onError_throws :: "(string, nat, string) callbacks" where
  "first_onError_throws made ev =
     (case ev of
        OnError h opts e \<Rightarrow> if h = 1 then Some (Error ''handler 1 failed'') else None
      | _ \<Rightarrow> None)"

definition first_onSnapshot_throws :: "(string, nat, string) callbacks" where
  "first_onSnapshot_throws made ev =
     (case ev of
        OnSnapshot h opts p \<Rightarrow> if h = 1 then Some (Error ''handler 1 failed'') else None
      | _ \<Rightarrow> None)"

section \<open>Keccak-256\<close>

text \<open>
  The hash function that the virtual machine provides is Keccak-256: the sponge
  construction over the permutation Keccak-f[1600], with rate 1088, capacity 512, the
  padding \<open>pad10*1\<close> and an output of 256 bits. It is not part of the repository; it is
  defined here on bits, so that the digests of concrete orders can be computed in the
  logic. The state is a list of 25 lanes, the lane at \<open>(x, y)\<close> at index \<open>x + 5 * y\<close>; a
  lane is a list of 64 bits, the least significant first.
\<close>

type_synonym lane = "bool list"

definition xorl :: "lane \<Rightarrow> lane \<Rightarrow> lane" where
  "xorl a b = map2 (\<lambda>x y. x \<noteq> y) a b"

text \<open>\<open>a XOR (NOT b AND c)\<close>, bit by bit.\<close>

definition chil :: "lane \<Rightarrow> lane \<Rightarrow> lane \<Rightarrow> lane" where
  "chil a b c = map2 (\<lambda>x (y, z). x \<noteq> (\<not> y \<and> z)) a (zip b c)"

text \<open>
  Rotation of a lane by \<open>n\<close> bits towards the most significant end: bit \<open>i\<close> moves to
  position \<open>(i + n) mod 64\<close>, so the last \<open>n\<close> bits of the list come first.
\<close>

definition rot :: "nat \<Rightarrow> lane \<Rightarrow> lane" where
  "rot k a = drop k a @ take k a"

definition rol :: "nat \<Rightarrow> lane \<Rightarrow> lane" where
  "rol n a = rot (64 - n) a"

text \<open>
  The step \<open>\<theta>\<close>: the parities of the five columns, the combination of the two
  neighbouring columns, and its addition to every lane.
\<close>

definition theta_c :: "lane list \<Rightarrow> lane list" where
  "theta_c a = map (\<lambda>x. xorl (a ! x) (xorl (a ! (x + 5)) (xorl (a ! (x + 10))
                        (xorl (a ! (x + 15)) (a ! (x + 20)))))) [0..<5]"

definition theta_d :: "lane list \<Rightarrow> lane list" where
  "theta_d c = map (\<lambda>x. xorl (c ! ((x + 4) mod 5)) (rol 1 (c ! ((x + 1) mod 5)))) [0..<5]"

definition theta_apply :: "lane list \<Rightarrow> lane list \<Rightarrow> lane list" where
  "theta_apply d a = map (\<lambda>i. xorl (a ! i) (d ! (i mod 5))) [0..<25]"

definition theta :: "lane list \<Rightarrow> lane list" where
  "theta a = theta_apply (theta_d (theta_c a)) a"

text \<open>The step \<open>\<rho>\<close>: every lane is rotated by its offset.\<close>

definition rho_offsets :: "nat list" where
  "rho_offsets = [0, 1, 62, 28, 27, 36, 44, 6, 55, 20, 3, 10, 43, 25, 39, 41, 45, 15, 21, 8,
                  18, 2, 61, 56, 14]"

definition rho :: "lane list \<Rightarrow> lane list" where
  "rho a = map2 rol rho_offsets a"

text \<open>
  The step \<open>\<pi>\<close>: the lane at \<open>(x, y)\<close> moves to \<open>(y, 2 * x + 3 * y)\<close>, that is the lane
  at \<open>(X, Y)\<close> comes from \<open>(X + 3 * Y, X)\<close>.
\<close>

definition pi :: "lane list \<Rightarrow> lane list" where
  "pi a = map (\<lambda>i. a ! ((i mod 5 + 3 * (i div 5)) mod 5 + 5 * (i mod 5))) [0..<25]"

text \<open>The step \<open>\<chi>\<close>, along every row.\<close>

definition chi :: "lane list \<Rightarrow> lane list" where
  "chi a = map (\<lambda>i. chil (a ! i) (a ! (5 * (i div 5) + (i + 1) mod 5))
                                (a ! (5 * (i div 5) + (i + 2) mod 5))) [0..<25]"

text \<open>The step \<open>\<iota>\<close>: the round constant is added to the lane at \<open>(0, 0)\<close>.\<close>

definition iota :: "lane \<Rightarrow> lane list \<Rightarrow> lane list" where
  "iota rc a = xorl (hd a) rc # tl a"

definition keccak_round :: "lane list \<Rightarrow> lane \<Rightarrow> lane list" where
  "keccak_round a rc = iota rc (chi (pi (rho (theta a))))"

text \<open>
  The round constants come from a linear feedback shift register of eight bits: bit
  \<open>2 ^ j - 1\<close> of the constant of round \<open>i\<close> is the output \<open>j + 7 * i\<close> of the register.
\<close>

definition rc_step :: "bool list \<Rightarrow> bool list" where
  "rc_step r = (let c = last r in
     [c, r ! 0, r ! 1, r ! 2, r ! 3 \<noteq> c, r ! 4 \<noteq> c, r ! 5 \<noteq> c, r ! 6])"

fun rc_bits :: "nat \<Rightarrow> bool list \<Rightarrow> bool list" where
  "rc_bits 0 r = []"
| "rc_bits (Suc n) r = hd r # rc_bits n (rc_step r)"

definition rc_lane :: "bool list \<Rightarrow> lane" where
  "rc_lane b = [b ! 0, b ! 1, False, b ! 2] @ replicate 3 False @ [b ! 3] @ replicate 7 False @
     [b ! 4] @ replicate 15 False @ [b ! 5] @ replicate 31 False @ [b ! 6]"

text \<open>A list cut into pieces of \<open>n\<close> elements; the last piece may be shorter.\<close>

function chunks :: "nat \<Rightarrow> 'a list \<Rightarrow> 'a list list" where
  "chunks n xs = (if n = 0 \<or> xs = [] then [] else take n xs # chunks n (drop n xs))"
  by pat_completeness auto
termination
  by (relation "measure (\<lambda>(n, xs). length xs)") auto

declare chunks.simps [simp del]

definition round_constants :: "lane list" where
  "round_constants =
     map rc_lane (chunks 7 (rc_bits 168 [True, False, False, False, False, False, False, False]))"

definition keccak_f :: "lane list \<Rightarrow> lane list" where
  "keccak_f a = foldl keccak_round a round_constants"

text \<open>
  The sponge: the message is padded to a multiple of the rate with a one, zeros and a
  one; every block of 1088 bits is added to the first 17 lanes of the state, and the
  permutation applied; the digest is the first 256 bits of the final state.
\<close>

definition pad10star1 :: "nat \<Rightarrow> bool list \<Rightarrow> bool list" where
  "pad10star1 r m = m @ [True] @ replicate ((r - (length m + 2) mod r) mod r) False @ [True]"

definition absorb :: "lane list \<Rightarrow> bool list \<Rightarrow> lane list" where
  "absorb a block = keccak_f (map2 xorl a (chunks 64 block @ replicate 8 (replicate 64 False)))"

definition keccak_bits :: "bool list \<Rightarrow> bool list" where
  "keccak_bits m =
     take 256 (concat (foldl absorb (replicate 25 (replicate 64 False))
                         (chunks 1088 (pad10star1 1088 m))))"

text \<open>
  A byte enters the sponge, and leaves it, least significant bit first. The digest of a
  byte string is a \<open>bytes32\<close>: its 32 bytes, the first one the most significant.
\<close>

definition byte_bits :: "8 word \<Rightarrow> bool list" where
  "byte_bits b = map (bit b) [0..<8]"

definition bits_byte :: "bool list \<Rightarrow> 8 word" where
  "bits_byte bs = horner_sum of_bool 2 bs"

definition bytes_bits :: "8 word list \<Rightarrow> bool list" where
  "bytes_bits m = concat (map byte_bits m)"

definition bits_bytes :: "bool list \<Rightarrow> 8 word list" where
  "bits_bytes bs = map bits_byte (chunks 8 bs)"

definition keccak_256 :: "8 word list \<Rightarrow> 256 word" where
  "keccak_256 m = word_rcat (bits_bytes (keccak_bits (bytes_bits m)))"

text \<open>
  The bits of a byte string written in hexadecimal, two digits for a byte, in the order
  in which the sponge takes them.
\<close>

definition hex_digits :: "(char \<times> bool list) list" where
  "hex_digits =
    [(CHR ''0'', [False, False, False, False]), (CHR ''1'', [True, False, False, False]),
     (CHR ''2'', [False, True, False, False]), (CHR ''3'', [True, True, False, False]),
     (CHR ''4'', [False, False, True, False]), (CHR ''5'', [True, False, True, False]),
     (CHR ''6'', [False, True, True, False]), (CHR ''7'', [True, True, True, False]),
     (CHR ''8'', [False, False, False, True]), (CHR ''9'', [True, False, False, True]),
     (CHR ''a'', [False, True, False, True]), (CHR ''b'', [True, True, False, True]),
     (CHR ''c'', [False, False, True, True]), (CHR ''d'', [True, False, True, True]),
     (CHR ''e'', [False, True, True, True]), (CHR ''f'', [True, True, True, True])]"

definition nibble :: "char \<Rightarrow> bool list" where
  "nibble c = (case map_of hex_digits c of Some bs \<Rightarrow> bs | None \<Rightarrow> [])"

fun hex_bits :: "string \<Rightarrow> bool list" where
  "hex_bits (hi # lo # cs) = nibble lo @ nibble hi @ hex_bits cs"
| "hex_bits _ = []"

section \<open>The order hash: encoding and composition\<close>

subsection \<open>Facts about the encoding\<close>

lemma length_word_bytes: "length (word_bytes (w::'a::len word)) = LENGTH('a) div 8"
  by (simp add: word_bytes_def)

lemma length_address_bytes [simp]: "length (word_bytes (a::address)) = 20"
  by (simp add: length_word_bytes)

lemma length_uint256_bytes [simp]: "length (word_bytes (n::uint256)) = 32"
  by (simp add: length_word_bytes)

lemma rev_word_bytes:
  "rev (word_bytes (w::'a::len word)) = map (\<lambda>i. ucast (drop_bit (8 * i) w)) [0..<LENGTH('a) div 8]"
  by (simp add: word_bytes_def rev_map)

lemma word_rcat_word_bytes:
  assumes "8 dvd LENGTH('a::len)"
  shows "word_rcat (word_bytes (w::'a word)) = w"
proof (rule bit_word_eqI)
  fix n assume n: "n < LENGTH('a)"
  from assms n have d: "n div 8 < LENGTH('a) div 8"
    by (metis dvd_mult_div_cancel less_mult_imp_div_less mult.commute)
  show "bit (word_rcat (word_bytes w) :: 'a word) n = bit w n"
    using n d
    by (simp only: word_rcat_def o_def rev_word_bytes bit_word_of_int_iff bit_horner_sum_uint_exp_iff)
      (simp add: bit_ucast_iff bit_drop_bit_eq)
qed

lemma word_rcat_address [simp]: "word_rcat (word_bytes (a::address)) = a"
  by (rule word_rcat_word_bytes) simp

lemma word_rcat_uint256 [simp]: "word_rcat (word_bytes (n::uint256)) = n"
  by (rule word_rcat_word_bytes) simp

lemma address_bytes_inj [simp]: "word_bytes (a::address) = word_bytes b \<longleftrightarrow> a = b"
  by (metis word_rcat_address)

lemma uint256_bytes_inj [simp]: "word_bytes (m::uint256) = word_bytes n \<longleftrightarrow> m = n"
  by (metis word_rcat_uint256)

lemma orderEncoding_eq:
  "orderEncoding H order =
     fixedFieldEncoding order @
     word_bytes (H (makerAssetData order)) @ word_bytes (H (takerAssetData order))"
  by (simp add: orderEncoding_def orderArgs_def encodePacked_def keccak256_def fixedFieldEncoding_def)

lemma length_fixedFieldEncoding [simp]: "length (fixedFieldEncoding order) = 272"
  by (simp add: fixedFieldEncoding_def)

lemma hashInput_eq:
  "hashInput H this order =
     word_bytes (DOMAIN_SEPARATOR_SCHEMA_HASH H) @ word_bytes (H (word_bytes this)) @
     word_bytes (ORDER_SCHEMA_HASH H) @ word_bytes (H (orderEncoding H order))"
  by (simp add: hashInput_def hashArgs_def encodePacked_def keccak256_def orderEncoding_def)

lemma getOrderHash_eq: "getOrderHash H this order = H (hashInput H this order)"
  by (simp add: getOrderHash_def keccak256_def hashInput_def)

section \<open>Keccak-256: evaluation\<close>

text \<open>
  The steps of the permutation on a state of 25 lanes written out, for rewriting.
\<close>

lemma xorl_simps:
  "xorl [] b = []" "xorl a [] = []" "xorl (x # xs) (y # ys) = (x \<noteq> y) # xorl xs ys"
  by (simp_all add: xorl_def)

lemma chil_simps:
  "chil [] b c = []" "chil a [] c = []" "chil a b [] = []"
  "chil (x # xs) (y # ys) (z # zs) = (x \<noteq> (\<not> y \<and> z)) # chil xs ys zs"
  by (simp_all add: chil_def)

lemma theta_c_25:
  "theta_c [a0,a1,a2,a3,a4,a5,a6,a7,a8,a9,a10,a11,a12,a13,a14,a15,a16,a17,a18,a19,a20,a21,a22,a23,a24] =
     [xorl a0 (xorl a5 (xorl a10 (xorl a15 a20))), xorl a1 (xorl a6 (xorl a11 (xorl a16 a21))),
      xorl a2 (xorl a7 (xorl a12 (xorl a17 a22))), xorl a3 (xorl a8 (xorl a13 (xorl a18 a23))),
      xorl a4 (xorl a9 (xorl a14 (xorl a19 a24)))]"
  by (simp add: theta_c_def upt_rec)

lemma theta_d_5:
  "theta_d [c0,c1,c2,c3,c4] =
     [xorl c4 (rot 63 c1), xorl c0 (rot 63 c2), xorl c1 (rot 63 c3), xorl c2 (rot 63 c4),
      xorl c3 (rot 63 c0)]"
  by (simp add: theta_d_def upt_rec rol_def)

lemma theta_apply_25:
  "theta_apply [d0,d1,d2,d3,d4]
     [a0,a1,a2,a3,a4,a5,a6,a7,a8,a9,a10,a11,a12,a13,a14,a15,a16,a17,a18,a19,a20,a21,a22,a23,a24] =
     [xorl a0 d0, xorl a1 d1, xorl a2 d2, xorl a3 d3, xorl a4 d4,
      xorl a5 d0, xorl a6 d1, xorl a7 d2, xorl a8 d3, xorl a9 d4,
      xorl a10 d0, xorl a11 d1, xorl a12 d2, xorl a13 d3, xorl a14 d4,
      xorl a15 d0, xorl a16 d1, xorl a17 d2, xorl a18 d3, xorl a19 d4,
      xorl a20 d0, xorl a21 d1, xorl a22 d2, xorl a23 d3, xorl a24 d4]"
  by (simp add: theta_apply_def upt_rec)

lemma rho_25:
  "rho [a0,a1,a2,a3,a4,a5,a6,a7,a8,a9,a10,a11,a12,a13,a14,a15,a16,a17,a18,a19,a20,a21,a22,a23,a24] =
     [rot 64 a0, rot 63 a1, rot 2 a2, rot 36 a3, rot 37 a4, rot 28 a5, rot 20 a6, rot 58 a7,
     rot 9 a8, rot 44 a9, rot 61 a10, rot 54 a11, rot 21 a12, rot 39 a13, rot 25 a14,
     rot 23 a15, rot 19 a16, rot 49 a17, rot 43 a18, rot 56 a19, rot 46 a20, rot 62 a21,
     rot 3 a22, rot 8 a23, rot 50 a24]"
  by (simp add: rho_def rho_offsets_def rol_def)

lemma pi_25:
  "pi [a0,a1,a2,a3,a4,a5,a6,a7,a8,a9,a10,a11,a12,a13,a14,a15,a16,a17,a18,a19,a20,a21,a22,a23,a24] =
     [a0, a6, a12, a18, a24, a3, a9, a10, a16, a22, a1, a7, a13, a19, a20, a4, a5, a11, a17,
      a23, a2, a8, a14, a15, a21]"
  by (simp add: pi_def upt_rec)

lemma chi_25:
  "chi [a0,a1,a2,a3,a4,a5,a6,a7,a8,a9,a10,a11,a12,a13,a14,a15,a16,a17,a18,a19,a20,a21,a22,a23,a24] =
     [chil a0 a1 a2, chil a1 a2 a3, chil a2 a3 a4, chil a3 a4 a0, chil a4 a0 a1,
      chil a5 a6 a7, chil a6 a7 a8, chil a7 a8 a9, chil a8 a9 a5, chil a9 a5 a6,
      chil a10 a11 a12, chil a11 a12 a13, chil a12 a13 a14, chil a13 a14 a10, chil a14 a10 a11,
      chil a15 a16 a17, chil a16 a17 a18, chil a17 a18 a19, chil a18 a19 a15, chil a19 a15 a16,
      chil a20 a21 a22, chil a21 a22 a23, chil a22 a23 a24, chil a23 a24 a20, chil a24 a20 a21]"
  by (simp add: chi_def upt_rec)

lemma iota_Cons: "iota rc (a # as) = xorl a rc # as"
  by (simp add: iota_def)

lemma nibble_simps:
  "nibble CHR ''0'' = [False, False, False, False]"
  "nibble CHR ''1'' = [True, False, False, False]"
  "nibble CHR ''2'' = [False, True, False, False]"
  "nibble CHR ''3'' = [True, True, False, False]"
  "nibble CHR ''4'' = [False, False, True, False]"
  "nibble CHR ''5'' = [True, False, True, False]"
  "nibble CHR ''6'' = [False, True, True, False]"
  "nibble CHR ''7'' = [True, True, True, False]"
  "nibble CHR ''8'' = [False, False, False, True]"
  "nibble CHR ''9'' = [True, False, False, True]"
  "nibble CHR ''a'' = [False, True, False, True]"
  "nibble CHR ''b'' = [True, True, False, True]"
  "nibble CHR ''c'' = [False, False, True, True]"
  "nibble CHR ''d'' = [True, False, True, True]"
  "nibble CHR ''e'' = [False, True, True, True]"
  "nibble CHR ''f'' = [True, True, True, True]"
  by (simp_all add: nibble_def hex_digits_def)

lemma byte_bits_of_char:
  "byte_bits (of_char (Char b0 b1 b2 b3 b4 b5 b6 b7)) = [b0, b1, b2, b3, b4, b5, b6, b7]"
proof -
  have "map (bit (horner_sum of_bool 2 [b0, b1, b2, b3, b4, b5, b6, b7] :: 8 word)) [0..<8]
      = [b0, b1, b2, b3, b4, b5, b6, b7]"
    by (simp add: upt_rec bit_horner_sum_bit_word_iff del: horner_sum_simps)
  then show ?thesis
    by (simp only: byte_bits_def of_char_Char)
qed


lemma round_constants_eq:
  "round_constants = map rc_lane
    [[True, False, False, False, False, False, False],
     [False, True, False, True, True, False, False],
     [False, True, True, True, True, False, True],
     [False, False, False, False, True, True, True],
     [True, True, True, True, True, False, False],
     [True, False, False, False, False, True, False],
     [True, False, False, True, True, True, True],
     [True, False, True, False, True, False, True],
     [False, True, True, True, False, False, False],
     [False, False, True, True, False, False, False],
     [True, False, True, False, True, True, False],
     [False, True, True, False, False, True, False],
     [True, True, True, True, True, True, False],
     [True, True, True, True, False, False, True],
     [True, False, True, True, True, False, True],
     [True, True, False, False, True, False, True],
     [False, True, False, False, True, False, True],
     [False, False, False, True, False, False, True],
     [False, True, True, False, True, False, False],
     [False, True, True, False, False, True, True],
     [True, False, False, True, True, True, True],
     [False, False, False, True, True, False, True],
     [True, False, False, False, False, True, False],
     [False, False, True, False, True, True, True]]"
  by code_simp

lemma rc_lane_7:
  "rc_lane [b0, b1, b2, b3, b4, b5, b6] =
     [b0, b1, False, b2, False, False, False, b3, False, False, False, False, False, False, False,
     b4, False, False, False, False, False, False, False, False, False, False, False, False,
     False, False, False, b5, False, False, False, False, False, False, False, False, False,
     False, False, False, False, False, False, False, False, False, False, False, False,
     False, False, False, False, False, False, False, False, False, False, b6]"
  by (simp add: rc_lane_def numeral_eq_Suc)

lemma drop_numeral_Cons: "drop (numeral v) (x # xs) = drop (pred_numeral v) xs"
  by (simp add: numeral_eq_Suc)

lemma take_numeral_Cons: "take (numeral v) (x # xs) = x # take (pred_numeral v) xs"
  by (simp add: numeral_eq_Suc)

lemma replicate_numeral_Cons: "replicate (numeral v) x = x # replicate (pred_numeral v) x"
  by (simp add: numeral_eq_Suc)

subsection \<open>Blocks and padding\<close>

lemma chunks_Nil: "chunks n [] = []"
  by (simp add: chunks.simps)

lemma chunks_numeral_Cons:
  "chunks (numeral k) (x # xs) = take (numeral k) (x # xs) # chunks (numeral k) (drop (numeral k) (x # xs))"
  by (subst chunks.simps) simp

lemma chunks_append:
  "n \<noteq> 0 \<Longrightarrow> n \<le> length xs \<Longrightarrow> chunks n (xs @ ys) = take n xs # chunks n (drop n xs @ ys)"
  by (subst chunks.simps) auto

lemma chunks_single: "xs \<noteq> [] \<Longrightarrow> length xs = n \<Longrightarrow> chunks n xs = [xs]"
  by (subst chunks.simps) (auto simp: chunks_Nil)

lemma pad_more:
  assumes "0 < r" "r \<le> length m"
  shows "chunks r (pad10star1 r m) = take r m # chunks r (pad10star1 r (drop r m))"
proof -
  from assms have "(length m + 2) mod r = (length m + 2 - r) mod r"
    by (simp add: le_mod_geq)
  also from assms have "length m + 2 - r = length (drop r m) + 2"
    by simp
  finally have "pad10star1 r (drop r m)
      = drop r m @ ([True] @ replicate ((r - (length m + 2) mod r) mod r) False @ [True])"
    unfolding pad10star1_def by simp
  moreover have "pad10star1 r m
      = m @ ([True] @ replicate ((r - (length m + 2) mod r) mod r) False @ [True])"
    unfolding pad10star1_def by simp
  ultimately show ?thesis
    using chunks_append [of r m] assms by simp
qed

lemma pad_last:
  assumes "length m + 2 \<le> r"
  shows "chunks r (pad10star1 r m) = [m @ True # replicate (r - 2 - length m) False @ [True]]"
proof -
  have j: "(r - (length m + 2) mod r) mod r = r - 2 - length m"
  proof (cases "length m + 2 = r")
    case True
    then show ?thesis by auto
  next
    case False
    with assms have "length m + 2 < r" by simp
    then show ?thesis by simp
  qed
  have p: "pad10star1 r m = m @ True # replicate (r - 2 - length m) False @ [True]"
    unfolding pad10star1_def j by simp
  from assms have "length (m @ True # replicate (r - 2 - length m) False @ [True]) = r"
    by simp
  then show ?thesis
    unfolding p by (intro chunks_single) simp_all
qed

lemma take_fill:
  "length m \<le> n \<Longrightarrow> take (Suc n) (m @ x # replicate n y) = m @ x # replicate (n - length m) y"
  by (simp add: Suc_diff_le min_def)

lemma chunks_pad_more:
  assumes "drop 1087 m \<noteq> []"
  shows "chunks 1088 (pad10star1 1088 m) = take 1088 m # chunks 1088 (pad10star1 1088 (drop 1088 m))"
proof -
  from assms have "1088 \<le> length m" by simp
  then show ?thesis by (intro pad_more) simp_all
qed

lemma chunks_pad_last:
  assumes "drop 1086 m = []"
  shows "chunks 1088 (pad10star1 1088 m) = [take 1087 (m @ True # replicate 1086 False) @ [True]]"
proof -
  from assms have len: "length m \<le> 1086" by simp
  then have "length m + 2 \<le> 1088" by simp
  then have "chunks 1088 (pad10star1 1088 m) = [m @ True # replicate (1088 - 2 - length m) False @ [True]]"
    by (rule pad_last)
  moreover have "(1088::nat) - 2 = 1086" by simp
  moreover have "Suc 1086 = 1087" by simp
  ultimately show ?thesis
    using take_fill [OF len, of True False] by simp
qed

subsection \<open>Bits, bytes and words\<close>

lemma byte_bits_bits_byte:
  assumes "length c = 8"
  shows "byte_bits (bits_byte c) = c"
proof -
  have "map (bit (horner_sum of_bool 2 c :: 8 word)) [0..<8] = map ((!) c) [0..<length c]"
    using assms by (auto simp: bit_horner_sum_bit_word_iff)
  then show ?thesis
    by (simp add: byte_bits_def bits_byte_def map_nth)
qed

lemma length_byte_bits [simp]: "length (byte_bits b) = 8"
  by (simp add: byte_bits_def)

lemma bytes_bits_append: "bytes_bits (a @ b) = bytes_bits a @ bytes_bits b"
  by (simp add: bytes_bits_def)

lemma concat_chunks: "n \<noteq> 0 \<Longrightarrow> concat (chunks n xs) = xs"
proof (induction n xs rule: chunks.induct)
  case (1 n xs)
  then show ?case
    by (subst chunks.simps) auto
qed

lemma chunks_lengths:
  "n \<noteq> 0 \<Longrightarrow> length xs = n * k \<Longrightarrow>
   length (chunks n xs) = k \<and> (\<forall>c \<in> set (chunks n xs). length c = n)"
proof (induction n xs arbitrary: k rule: chunks.induct)
  case (1 n xs)
  show ?case
  proof (cases "xs = []")
    case True
    with 1 show ?thesis by (simp add: chunks_Nil)
  next
    case False
    with 1 obtain k' where k: "k = Suc k'" by (cases k) auto
    with 1 have len: "length (drop n xs) = n * k'" by simp
    from 1 False have "length (chunks n (drop n xs)) = k' \<and> (\<forall>c \<in> set (chunks n (drop n xs)). length c = n)"
      using len by blast
    moreover from 1 k have "length (take n xs) = n" by simp
    moreover from 1 False have "chunks n xs = take n xs # chunks n (drop n xs)"
      by (subst chunks.simps) simp
    ultimately show ?thesis using k by simp
  qed
qed

lemma bytes_bits_bits_bytes:
  assumes "length d = 8 * k"
  shows "bytes_bits (bits_bytes d) = d" and "length (bits_bytes d) = k"
proof -
  from chunks_lengths [of 8 d k] assms
  have l: "length (chunks 8 d) = k" and c: "\<forall>c \<in> set (chunks 8 d). length c = 8" by simp_all
  from c have "map (byte_bits \<circ> bits_byte) (chunks 8 d) = chunks 8 d"
    by (simp add: byte_bits_bits_byte map_idI)
  then show "bytes_bits (bits_bytes d) = d"
    by (simp add: bytes_bits_def bits_bytes_def concat_chunks)
  from l show "length (bits_bytes d) = k"
    by (simp add: bits_bytes_def)
qed

lemma word_bytes_word_rcat:
  assumes "length bs = 32"
  shows "word_bytes (word_rcat bs :: 256 word) = bs"
proof (rule nth_equalityI)
  show "length (word_bytes (word_rcat bs :: 256 word)) = length bs"
    using assms by simp
next
  fix i assume "i < length (word_bytes (word_rcat bs :: 256 word))"
  then have i: "i < 32" by simp
  then have r: "rev [0..<32] ! i = 31 - i"
    by (simp add: rev_nth)
  have "ucast (drop_bit (8 * (31 - i)) (word_rcat bs :: 256 word)) = bs ! i"
  proof (rule bit_word_eqI)
    fix j assume "j < LENGTH(8)"
    then have j: "j < 8" by simp
    with i have n: "8 * (31 - i) + j < 256" by simp
    from j have d: "(8 * (31 - i) + j) div 8 = 31 - i" and m: "(8 * (31 - i) + j) mod 8 = j"
      by simp_all
    have "bit (word_rcat bs :: 256 word) (8 * (31 - i) + j)
        = bit (rev bs ! ((8 * (31 - i) + j) div LENGTH(8))) ((8 * (31 - i) + j) mod LENGTH(8))"
      using n assms i j
      by (simp only: word_rcat_def o_def bit_word_of_int_iff bit_horner_sum_uint_exp_iff) simp
    also have "\<dots> = bit (bs ! i) j"
      using d m assms i by (simp add: rev_nth)
    finally show "bit (ucast (drop_bit (8 * (31 - i)) (word_rcat bs :: 256 word)) :: 8 word) j = bit (bs ! i) j"
      using j by (simp add: bit_ucast_iff bit_drop_bit_eq)
  qed
  with i r show "word_bytes (word_rcat bs :: 256 word) ! i = bs ! i"
    by (simp add: word_bytes_def)
qed

lemma digest_roundtrip:
  assumes "length d = 256"
  shows "bytes_bits (word_bytes (word_rcat (bits_bytes d) :: 256 word)) = d"
proof -
  from assms have "length d = 8 * 32" by simp
  from bytes_bits_bits_bytes [OF this] show ?thesis
    by (simp add: word_bytes_word_rcat)
qed

lemma keccak_256_bits:
  assumes "keccak_bits (bytes_bits m) = d" and "length d = 256"
  shows "bytes_bits (word_bytes (keccak_256 m)) = d"
  using assms by (simp add: keccak_256_def digest_roundtrip)

lemma keccak_256_neq:
  assumes "keccak_bits (bytes_bits m1) = d1" and "length d1 = 256"
    and "keccak_bits (bytes_bits m2) = d2" and "length d2 = 256"
    and "d1 \<noteq> d2"
  shows "keccak_256 m1 \<noteq> keccak_256 m2"
  using assms keccak_256_bits by metis

lemma byte_bits_ucast_drop_bit:
  "byte_bits (ucast (drop_bit (8 * i) (w::'a::len word))) = map (\<lambda>j. bit w (8 * i + j)) [0..<8]"
  by (simp add: byte_bits_def bit_ucast_iff bit_drop_bit_eq)

lemma bytes_bits_word_bytes:
  "bytes_bits (word_bytes (w::'a::len word))
     = concat (map (\<lambda>i. map (\<lambda>j. bit w (8 * i + j)) [0..<8]) (rev [0..<LENGTH('a) div 8]))"
  by (simp add: bytes_bits_def word_bytes_def byte_bits_ucast_drop_bit o_def)

subsection \<open>The digests of the examples\<close>

text \<open>
  The digests below are computed in the logic, by rewriting with the equations of the
  steps; a digest is written in hexadecimal, as usual.
\<close>

lemmas keccak_eval =
  keccak_bits_def bytes_bits_def string_bytes_def absorb_def keccak_f_def keccak_round_def theta_def
  round_constants_eq rc_lane_7 theta_c_25 theta_d_5 theta_apply_25 rho_25 pi_25 chi_25 iota_Cons
  rot_def xorl_simps chil_simps byte_bits_of_char hex_bits.simps nibble_simps
  chunks_pad_more chunks_pad_last chunks_numeral_Cons chunks_Nil
  drop_numeral_Cons take_numeral_Cons replicate_numeral_Cons drop_0 take_0 replicate_0 drop_Nil take_Nil
  pred_numeral_simps BitM.simps
  list.map concat.simps append.simps foldl.simps zip_Cons_Cons zip_Nil prod.case list.simps
  DOMAIN_SEPARATOR_SCHEMA_def ORDER_SCHEMA_def
  simp_thms

lemma keccak_empty:
  "keccak_bits []
     = hex_bits ''c5d2460186f7233c927e7db2dcc703c0e500b653ca82273b7bfad8045d85a470''"
  by (simp only: keccak_eval)

lemma keccak_domain_schema:
  "keccak_bits (bytes_bits (string_bytes DOMAIN_SEPARATOR_SCHEMA))
     = hex_bits ''5a77bdc5cc01fb2bffb0eb6275b3e8c890330c0d983c452ba18efe50e3decb4c''"
  by (simp only: keccak_eval)

lemma keccak_order_schema:
  "keccak_bits (bytes_bits (concat (map string_bytes ORDER_SCHEMA)))
     = hex_bits ''6b1d050a7da25a09d7a249948c7e0bdf9f51ed129e6d2eda648f1f9e94770e44''"
  by (simp only: keccak_eval)

lemma keccak_exchange1:
  "keccak_bits (hex_bits ''1234567890abcdef1234567890abcdef12345678'')
     = hex_bits ''5f6174255b44b7ca652c5289d2546de65e4394eb6aa52a40045e01237736d023''"
  by (simp only: keccak_eval)

lemma keccak_exchange2:
  "keccak_bits (hex_bits ''1234567890abcdef1234567890abcdef12345679'')
     = hex_bits ''810a517450468d1bdbe5f9185c6c931be4a6355d9a0d667fcb33893c5ae8ebd5''"
  by (simp only: keccak_eval)

lemma keccak_maker_data:
  "keccak_bits (hex_bits ''f47261b0'')
     = hex_bits ''c0d0262ee448b16bc22e781ea4a8752eafb098cc3c473c060e3de8b3322263c2''"
  by (simp only: keccak_eval)

lemma keccak_taker_data:
  "keccak_bits (hex_bits ''f47261b001'')
     = hex_bits ''450e4111471037ea1642a5753d0985c6f9079d231675f45c413561434aca859e''"
  by (simp only: keccak_eval)

lemma keccak_order_fields:
  "keccak_bits (hex_bits ''000000000000000000000000000000000000001100000000000000000000000000000000000000000000000000000000000000000000000000000033000000000000000000000000000000000000000000000000000000000000000000000000000000000000000000000000000003e800000000000000000000000000000000000000000000000000000000000007d000000000000000000000000000000000000000000000000000000000000000010000000000000000000000000000000000000000000000000000000000000002000000000000000000000000000000000000000000000000000000005f5e1000000000000000000000000000000000000000000000000000000000000000002a'' @ hex_bits ''c0d0262ee448b16bc22e781ea4a8752eafb098cc3c473c060e3de8b3322263c2'' @ hex_bits ''450e4111471037ea1642a5753d0985c6f9079d231675f45c413561434aca859e'')
     = hex_bits ''0d5205921314e3fddb448b0665a6f1d85f17d30486bd18bac75deb0698f0cf00''"
  by (simp only: keccak_eval)

lemma keccak_order2_fields:
  "keccak_bits (hex_bits ''000000000000000000000000000000000000001100000000000000000000000000000000000000000000000000000000000000000000000000000033000000000000000000000000000000000000000000000000000000000000000000000000000000000000000000000000000003e800000000000000000000000000000000000000000000000000000000000007d000000000000000000000000000000000000000000000000000000000000000010000000000000000000000000000000000000000000000000000000000000002000000000000000000000000000000000000000000000000000000005f5e1000000000000000000000000000000000000000000000000000000000000000002b'' @ hex_bits ''c0d0262ee448b16bc22e781ea4a8752eafb098cc3c473c060e3de8b3322263c2'' @ hex_bits ''450e4111471037ea1642a5753d0985c6f9079d231675f45c413561434aca859e'')
     = hex_bits ''4b99bfa3fc3673335f0456b256aceb671dc16895f423e294b37bf6ab952dcf7e''"
  by (simp only: keccak_eval)

lemma keccak_order_hash:
  "keccak_bits (hex_bits ''5a77bdc5cc01fb2bffb0eb6275b3e8c890330c0d983c452ba18efe50e3decb4c'' @ hex_bits ''5f6174255b44b7ca652c5289d2546de65e4394eb6aa52a40045e01237736d023'' @ hex_bits ''6b1d050a7da25a09d7a249948c7e0bdf9f51ed129e6d2eda648f1f9e94770e44'' @ hex_bits ''0d5205921314e3fddb448b0665a6f1d85f17d30486bd18bac75deb0698f0cf00'')
     = hex_bits ''1ad96ec2e0d86b8f614f3174bd7eaec3b839fa1333aa5091dcec72c71c7ad0e2''"
  by (simp only: keccak_eval)

lemma keccak_separator:
  "keccak_bits (hex_bits ''5a77bdc5cc01fb2bffb0eb6275b3e8c890330c0d983c452ba18efe50e3decb4c'' @ hex_bits ''5f6174255b44b7ca652c5289d2546de65e4394eb6aa52a40045e01237736d023'')
     = hex_bits ''4e5b0fc97279aa3fae3ab4e9b33b628d744920d6dd126a4ab499a034bf59a808''"
  by (simp only: keccak_eval)

lemma keccak_order_hash_spec:
  "keccak_bits (hex_bits ''4e5b0fc97279aa3fae3ab4e9b33b628d744920d6dd126a4ab499a034bf59a808'' @ hex_bits ''5f6174255b44b7ca652c5289d2546de65e4394eb6aa52a40045e01237736d023'' @ hex_bits ''6b1d050a7da25a09d7a249948c7e0bdf9f51ed129e6d2eda648f1f9e94770e44'' @ hex_bits ''0d5205921314e3fddb448b0665a6f1d85f17d30486bd18bac75deb0698f0cf00'')
     = hex_bits ''b186f0457fd8c961c768b99ded0715b2d8b2544c3fae202e13a21c3b4ceb0e81''"
  by (simp only: keccak_eval)

lemma keccak_order_hash_exchange2:
  "keccak_bits (hex_bits ''5a77bdc5cc01fb2bffb0eb6275b3e8c890330c0d983c452ba18efe50e3decb4c'' @ hex_bits ''810a517450468d1bdbe5f9185c6c931be4a6355d9a0d667fcb33893c5ae8ebd5'' @ hex_bits ''6b1d050a7da25a09d7a249948c7e0bdf9f51ed129e6d2eda648f1f9e94770e44'' @ hex_bits ''0d5205921314e3fddb448b0665a6f1d85f17d30486bd18bac75deb0698f0cf00'')
     = hex_bits ''dcd54bcf2404630fc98726ddb85c7517ead4092558be7efc384107573da6763d''"
  by (simp only: keccak_eval)

lemma keccak_order2_hash:
  "keccak_bits (hex_bits ''5a77bdc5cc01fb2bffb0eb6275b3e8c890330c0d983c452ba18efe50e3decb4c'' @ hex_bits ''5f6174255b44b7ca652c5289d2546de65e4394eb6aa52a40045e01237736d023'' @ hex_bits ''6b1d050a7da25a09d7a249948c7e0bdf9f51ed129e6d2eda648f1f9e94770e44'' @ hex_bits ''4b99bfa3fc3673335f0456b256aceb671dc16895f423e294b37bf6ab952dcf7e'')
     = hex_bits ''63772a209d36b121e9933da5138c1b86649883b23cde741ac455e01c26a6f628''"
  by (simp only: keccak_eval)

lemmas hex_eval = hex_bits.simps nibble_simps append.simps list.simps simp_thms

lemma encodePacked_strings: "encodePacked (map String ss) = concat (map string_bytes ss)"
  by (simp add: encodePacked_def o_def)

lemma bits_exchange1: "bytes_bits (word_bytes exchange1) = hex_bits ''1234567890abcdef1234567890abcdef12345678''"
  by (simp add: bytes_bits_word_bytes upt_rec nibble_simps exchange1_def)

lemma bits_exchange2: "bytes_bits (word_bytes exchange2) = hex_bits ''1234567890abcdef1234567890abcdef12345679''"
  by (simp add: bytes_bits_word_bytes upt_rec nibble_simps exchange2_def)

lemma bits_maker_data: "bytes_bits (makerAssetData example_order) = hex_bits ''f47261b0''"
  by (simp add: example_order_def bytes_bits_def byte_bits_def upt_rec nibble_simps)

lemma bits_taker_data: "bytes_bits (takerAssetData example_order) = hex_bits ''f47261b001''"
  by (simp add: example_order_def bytes_bits_def byte_bits_def upt_rec nibble_simps)

lemma bits_order_fields:
  "bytes_bits (fixedFieldEncoding example_order)
     = hex_bits ''000000000000000000000000000000000000001100000000000000000000000000000000000000000000000000000000000000000000000000000033000000000000000000000000000000000000000000000000000000000000000000000000000000000000000000000000000003e800000000000000000000000000000000000000000000000000000000000007d000000000000000000000000000000000000000000000000000000000000000010000000000000000000000000000000000000000000000000000000000000002000000000000000000000000000000000000000000000000000000005f5e1000000000000000000000000000000000000000000000000000000000000000002a''"
  by (simp add: fixedFieldEncoding_def bytes_bits_append bytes_bits_word_bytes upt_rec example_order_def
      nibble_simps)

lemma bits_order2_fields:
  "bytes_bits (fixedFieldEncoding example_order2)
     = hex_bits ''000000000000000000000000000000000000001100000000000000000000000000000000000000000000000000000000000000000000000000000033000000000000000000000000000000000000000000000000000000000000000000000000000000000000000000000000000003e800000000000000000000000000000000000000000000000000000000000007d000000000000000000000000000000000000000000000000000000000000000010000000000000000000000000000000000000000000000000000000000000002000000000000000000000000000000000000000000000000000000005f5e1000000000000000000000000000000000000000000000000000000000000000002b''"
  by (simp add: fixedFieldEncoding_def bytes_bits_append bytes_bits_word_bytes upt_rec example_order_def
      example_order2_def nibble_simps)

lemma encodePacked_string: "encodePacked [String s] = string_bytes s"
  by (simp add: encodePacked_def)

lemma word_domain_schema:
  "bytes_bits (word_bytes (DOMAIN_SEPARATOR_SCHEMA_HASH keccak_256)) = hex_bits ''5a77bdc5cc01fb2bffb0eb6275b3e8c890330c0d983c452ba18efe50e3decb4c''"
  unfolding DOMAIN_SEPARATOR_SCHEMA_HASH_def keccak256_def encodePacked_string
  by (rule keccak_256_bits) (simp only: keccak_domain_schema, simp add: nibble_simps)

lemma word_order_schema:
  "bytes_bits (word_bytes (ORDER_SCHEMA_HASH keccak_256)) = hex_bits ''6b1d050a7da25a09d7a249948c7e0bdf9f51ed129e6d2eda648f1f9e94770e44''"
  unfolding ORDER_SCHEMA_HASH_def keccak256_def encodePacked_strings
  by (rule keccak_256_bits) (simp only: keccak_order_schema, simp add: nibble_simps)

lemma word_exchange1:
  "bytes_bits (word_bytes (keccak_256 (word_bytes exchange1))) = hex_bits ''5f6174255b44b7ca652c5289d2546de65e4394eb6aa52a40045e01237736d023''"
  by (rule keccak_256_bits) (simp only: bits_exchange1 keccak_exchange1, simp add: nibble_simps)

lemma word_exchange2:
  "bytes_bits (word_bytes (keccak_256 (word_bytes exchange2))) = hex_bits ''810a517450468d1bdbe5f9185c6c931be4a6355d9a0d667fcb33893c5ae8ebd5''"
  by (rule keccak_256_bits) (simp only: bits_exchange2 keccak_exchange2, simp add: nibble_simps)

lemma word_maker_data:
  "bytes_bits (word_bytes (keccak_256 (makerAssetData example_order))) = hex_bits ''c0d0262ee448b16bc22e781ea4a8752eafb098cc3c473c060e3de8b3322263c2''"
  by (rule keccak_256_bits) (simp only: bits_maker_data keccak_maker_data, simp add: nibble_simps)

lemma word_taker_data:
  "bytes_bits (word_bytes (keccak_256 (takerAssetData example_order))) = hex_bits ''450e4111471037ea1642a5753d0985c6f9079d231675f45c413561434aca859e''"
  by (rule keccak_256_bits) (simp only: bits_taker_data keccak_taker_data, simp add: nibble_simps)


lemma bits_order_encoding:
  "bytes_bits (orderEncoding keccak_256 example_order)
     = hex_bits ''000000000000000000000000000000000000001100000000000000000000000000000000000000000000000000000000000000000000000000000033000000000000000000000000000000000000000000000000000000000000000000000000000000000000000000000000000003e800000000000000000000000000000000000000000000000000000000000007d000000000000000000000000000000000000000000000000000000000000000010000000000000000000000000000000000000000000000000000000000000002000000000000000000000000000000000000000000000000000000005f5e1000000000000000000000000000000000000000000000000000000000000000002a'' @ hex_bits ''c0d0262ee448b16bc22e781ea4a8752eafb098cc3c473c060e3de8b3322263c2'' @ hex_bits ''450e4111471037ea1642a5753d0985c6f9079d231675f45c413561434aca859e''"
  by (simp only: orderEncoding_eq bytes_bits_append bits_order_fields word_maker_data word_taker_data)

lemma order2_data:
  "makerAssetData example_order2 = makerAssetData example_order"
  "takerAssetData example_order2 = takerAssetData example_order"
  by (simp_all add: example_order2_def)

lemma bits_order2_encoding:
  "bytes_bits (orderEncoding keccak_256 example_order2)
     = hex_bits ''000000000000000000000000000000000000001100000000000000000000000000000000000000000000000000000000000000000000000000000033000000000000000000000000000000000000000000000000000000000000000000000000000000000000000000000000000003e800000000000000000000000000000000000000000000000000000000000007d000000000000000000000000000000000000000000000000000000000000000010000000000000000000000000000000000000000000000000000000000000002000000000000000000000000000000000000000000000000000000005f5e1000000000000000000000000000000000000000000000000000000000000000002b'' @ hex_bits ''c0d0262ee448b16bc22e781ea4a8752eafb098cc3c473c060e3de8b3322263c2'' @ hex_bits ''450e4111471037ea1642a5753d0985c6f9079d231675f45c413561434aca859e''"
  by (simp only: orderEncoding_eq bytes_bits_append bits_order2_fields order2_data word_maker_data
      word_taker_data)

lemma word_order_fields:
  "bytes_bits (word_bytes (keccak_256 (orderEncoding keccak_256 example_order))) = hex_bits ''0d5205921314e3fddb448b0665a6f1d85f17d30486bd18bac75deb0698f0cf00''"
  by (rule keccak_256_bits) (simp only: bits_order_encoding keccak_order_fields, simp add: nibble_simps)

lemma word_order2_fields:
  "bytes_bits (word_bytes (keccak_256 (orderEncoding keccak_256 example_order2))) = hex_bits ''4b99bfa3fc3673335f0456b256aceb671dc16895f423e294b37bf6ab952dcf7e''"
  by (rule keccak_256_bits) (simp only: bits_order2_encoding keccak_order2_fields, simp add: nibble_simps)

lemma bits_hashInput:
  "bytes_bits (hashInput keccak_256 exchange1 example_order)
     = hex_bits ''5a77bdc5cc01fb2bffb0eb6275b3e8c890330c0d983c452ba18efe50e3decb4c'' @ hex_bits ''5f6174255b44b7ca652c5289d2546de65e4394eb6aa52a40045e01237736d023'' @ hex_bits ''6b1d050a7da25a09d7a249948c7e0bdf9f51ed129e6d2eda648f1f9e94770e44'' @ hex_bits ''0d5205921314e3fddb448b0665a6f1d85f17d30486bd18bac75deb0698f0cf00''"
  by (simp only: hashInput_eq bytes_bits_append word_domain_schema word_exchange1 word_order_schema
      word_order_fields)

lemma bits_hashInput_exchange2:
  "bytes_bits (hashInput keccak_256 exchange2 example_order)
     = hex_bits ''5a77bdc5cc01fb2bffb0eb6275b3e8c890330c0d983c452ba18efe50e3decb4c'' @ hex_bits ''810a517450468d1bdbe5f9185c6c931be4a6355d9a0d667fcb33893c5ae8ebd5'' @ hex_bits ''6b1d050a7da25a09d7a249948c7e0bdf9f51ed129e6d2eda648f1f9e94770e44'' @ hex_bits ''0d5205921314e3fddb448b0665a6f1d85f17d30486bd18bac75deb0698f0cf00''"
  by (simp only: hashInput_eq bytes_bits_append word_domain_schema word_exchange2 word_order_schema
      word_order_fields)

lemma bits_hashInput_order2:
  "bytes_bits (hashInput keccak_256 exchange1 example_order2)
     = hex_bits ''5a77bdc5cc01fb2bffb0eb6275b3e8c890330c0d983c452ba18efe50e3decb4c'' @ hex_bits ''5f6174255b44b7ca652c5289d2546de65e4394eb6aa52a40045e01237736d023'' @ hex_bits ''6b1d050a7da25a09d7a249948c7e0bdf9f51ed129e6d2eda648f1f9e94770e44'' @ hex_bits ''4b99bfa3fc3673335f0456b256aceb671dc16895f423e294b37bf6ab952dcf7e''"
  by (simp only: hashInput_eq bytes_bits_append word_domain_schema word_exchange1 word_order_schema
      word_order2_fields)

lemma word_separator:
  "bytes_bits (word_bytes (domainSeparatorHash_spec keccak_256 exchange1)) = hex_bits ''4e5b0fc97279aa3fae3ab4e9b33b628d744920d6dd126a4ab499a034bf59a808''"
  unfolding domainSeparatorHash_spec_def
  by (rule keccak_256_bits)
    (simp only: bytes_bits_append word_domain_schema [unfolded DOMAIN_SEPARATOR_SCHEMA_HASH_def keccak256_def encodePacked_string]
      word_exchange1 keccak_separator, simp add: nibble_simps)

lemma hash_of_example:
  "keccak_bits (bytes_bits (hashInput keccak_256 exchange1 example_order)) = hex_bits ''1ad96ec2e0d86b8f614f3174bd7eaec3b839fa1333aa5091dcec72c71c7ad0e2''"
  by (simp only: bits_hashInput keccak_order_hash)

lemma hash_of_example_exchange2:
  "keccak_bits (bytes_bits (hashInput keccak_256 exchange2 example_order)) = hex_bits ''dcd54bcf2404630fc98726ddb85c7517ead4092558be7efc384107573da6763d''"
  by (simp only: bits_hashInput_exchange2 keccak_order_hash_exchange2)

lemma hash_of_example2:
  "keccak_bits (bytes_bits (hashInput keccak_256 exchange1 example_order2)) = hex_bits ''63772a209d36b121e9933da5138c1b86649883b23cde741ac455e01c26a6f628''"
  by (simp only: bits_hashInput_order2 keccak_order2_hash)

lemma spec_hash_of_example:
  "keccak_bits (bytes_bits
      (word_bytes (domainSeparatorHash_spec keccak_256 exchange1) @
       word_bytes (keccak_256 (word_bytes exchange1)) @
       word_bytes (ORDER_SCHEMA_HASH keccak_256) @
       word_bytes (keccak_256 (fixedFieldEncoding example_order @
                      word_bytes (keccak_256 (makerAssetData example_order)) @
                      word_bytes (keccak_256 (takerAssetData example_order))))))
     = hex_bits ''b186f0457fd8c961c768b99ded0715b2d8b2544c3fae202e13a21c3b4ceb0e81''"
  by (simp only: bytes_bits_append word_separator word_exchange1 word_order_schema
      word_order_fields [unfolded orderEncoding_eq] keccak_order_hash_spec)

lemma hash_of_exchange1:
  "keccak_bits (bytes_bits (word_bytes exchange1)) = hex_bits ''5f6174255b44b7ca652c5289d2546de65e4394eb6aa52a40045e01237736d023''"
  by (simp only: bits_exchange1 keccak_exchange1)

lemma hash_of_exchange2:
  "keccak_bits (bytes_bits (word_bytes exchange2)) = hex_bits ''810a517450468d1bdbe5f9185c6c931be4a6355d9a0d667fcb33893c5ae8ebd5''"
  by (simp only: bits_exchange2 keccak_exchange2)

lemma hash_of_fields:
  "keccak_bits (bytes_bits (orderEncoding keccak_256 example_order)) = hex_bits ''0d5205921314e3fddb448b0665a6f1d85f17d30486bd18bac75deb0698f0cf00''"
  by (simp only: bits_order_encoding keccak_order_fields)

lemma hash_of_fields2:
  "keccak_bits (bytes_bits (orderEncoding keccak_256 example_order2)) = hex_bits ''4b99bfa3fc3673335f0456b256aceb671dc16895f423e294b37bf6ab952dcf7e''"
  by (simp only: bits_order2_encoding keccak_order2_fields)

section \<open>The order hash: the claims\<close>

lemma Order_eqI:
  fixes a b :: Order
  assumes "makerAddress a = makerAddress b" "takerAddress a = takerAddress b"
    "feeRecipientAddress a = feeRecipientAddress b" "senderAddress a = senderAddress b"
    "makerAssetAmount a = makerAssetAmount b" "takerAssetAmount a = takerAssetAmount b"
    "makerFee a = makerFee b" "takerFee a = takerFee b"
    "expirationTimeSeconds a = expirationTimeSeconds b" "salt a = salt b"
    "makerAssetData a = makerAssetData b" "takerAssetData a = takerAssetData b"
  shows "a = b"
  using assms by (cases a, cases b) simp

lemma fixedFieldEncoding_inj:
  assumes "fixedFieldEncoding a = fixedFieldEncoding b"
  shows "makerAddress a = makerAddress b \<and> takerAddress a = takerAddress b \<and>
    feeRecipientAddress a = feeRecipientAddress b \<and> senderAddress a = senderAddress b \<and>
    makerAssetAmount a = makerAssetAmount b \<and> takerAssetAmount a = takerAssetAmount b \<and>
    makerFee a = makerFee b \<and> takerFee a = takerFee b \<and>
    expirationTimeSeconds a = expirationTimeSeconds b \<and> salt a = salt b"
  using assms by (simp add: fixedFieldEncoding_def)

text \<open>
  C1, as amended. For every order and every verifying instance \<open>v\<close>, \<open>getOrderHash\<close>
  returns \<open>H(H(domain-schema-constant) \<parallel> H(v) \<parallel> order-schema-hash \<parallel>
  H(fixed-field-encoding \<parallel> H(makerAssetData) \<parallel> H(takerAssetData)))\<close>: the first
  component is the hash of the domain-schema constant itself, and \<open>H(v)\<close> enters once.
\<close>

theorem getOrderHash_composition:
  "getOrderHash H v order =
     H (word_bytes (H (string_bytes ''DomainSeparator(address contract)'')) @
        word_bytes (H (word_bytes v)) @
        word_bytes (ORDER_SCHEMA_HASH H) @
        word_bytes (H (fixedFieldEncoding order @
                       word_bytes (H (makerAssetData order)) @
                       word_bytes (H (takerAssetData order)))))"
  by (simp add: getOrderHash_eq hashInput_eq orderEncoding_eq DOMAIN_SEPARATOR_SCHEMA_HASH_def
      DOMAIN_SEPARATOR_SCHEMA_def keccak256_def encodePacked_def)

text \<open>
  C1 as stated puts the domain-separator hash \<open>H(H(domain-schema-constant) \<parallel> H(v))\<close> in
  the first place. With Keccak-256, the digest of the example order under the first
  instance is \<open>1ad96ec2...\<close> by the code and \<open>b186f045...\<close> by that formula.
\<close>

theorem getOrderHash_composition_counterexample:
  "getOrderHash keccak_256 exchange1 example_order \<noteq> orderHash_spec keccak_256 exchange1 example_order"
  unfolding getOrderHash_eq orderHash_spec_def
  by (rule keccak_256_neq [OF hash_of_example _ spec_hash_of_example]) (simp add: nibble_simps, simp add: nibble_simps, simp only: hex_eval)


text \<open>
  C2. The order hash is a function of the order and of the verifying instance alone: two
  invocations with the same order, in execution contexts that agree on the address of
  the instance (whatever the caller, the block and the storage are), return the same
  digest.
\<close>

theorem getOrderHash_deterministic:
  assumes "address_this ctx1 = address_this ctx2"
  shows "fst (getOrderHash_view H ctx1 st1 order) = fst (getOrderHash_view H ctx2 st2 order)"
  using assms by (simp add: getOrderHash_view_def)

theorem getOrderHash_deterministic_witness:
  "address_this \<lparr>address_this = exchange1, msg_sender = 1, block_number = 10, block_timestamp = 100\<rparr>
     = address_this \<lparr>address_this = exchange1, msg_sender = 2, block_number = 11, block_timestamp = 200\<rparr> \<and>
   fst (getOrderHash_view keccak_256
          \<lparr>address_this = exchange1, msg_sender = 1, block_number = 10, block_timestamp = 100\<rparr>
          (\<lambda>slot. 0) example_order)
     = fst (getOrderHash_view keccak_256
          \<lparr>address_this = exchange1, msg_sender = 2, block_number = 11, block_timestamp = 200\<rparr>
          (\<lambda>slot. slot + 1) example_order)"
proof -
  have same: "address_this \<lparr>address_this = exchange1, msg_sender = 1, block_number = 10, block_timestamp = 100\<rparr>
     = address_this \<lparr>address_this = exchange1, msg_sender = 2, block_number = 11, block_timestamp = 200\<rparr>"
    by simp
  from same getOrderHash_deterministic [OF same] show ?thesis
    by (rule conjI)
qed

text \<open>
  C3. Take one order and two different verifying instances. If the hash function does
  not collide on the two byte strings of the outer call, nor on the two packed addresses,
  the two order hashes differ.
\<close>

theorem getOrderHash_domain_separation:
  assumes "collision_free H (hashInput H v1 order) (hashInput H v2 order)"
    and "collision_free H (word_bytes v1) (word_bytes v2)"
    and "v1 \<noteq> v2"
  shows "getOrderHash H v1 order \<noteq> getOrderHash H v2 order"
proof
  assume "getOrderHash H v1 order = getOrderHash H v2 order"
  with assms(1) have "hashInput H v1 order = hashInput H v2 order"
    by (simp add: getOrderHash_eq collision_free_def)
  then have "H (word_bytes v1) = H (word_bytes v2)"
    by (simp add: hashInput_eq)
  with assms(2) have "v1 = v2"
    by (simp add: collision_free_def)
  with assms(3) show False by simp
qed

theorem getOrderHash_domain_separation_witness:
  "collision_free keccak_256 (hashInput keccak_256 exchange1 example_order)
     (hashInput keccak_256 exchange2 example_order) \<and>
   collision_free keccak_256 (word_bytes exchange1) (word_bytes exchange2) \<and>
   exchange1 \<noteq> exchange2 \<and>
   getOrderHash keccak_256 exchange1 example_order \<noteq> getOrderHash keccak_256 exchange2 example_order"
proof -
  have "keccak_256 (hashInput keccak_256 exchange1 example_order)
      \<noteq> keccak_256 (hashInput keccak_256 exchange2 example_order)"
    by (rule keccak_256_neq [OF hash_of_example _ hash_of_example_exchange2])
      (simp add: nibble_simps, simp add: nibble_simps, simp only: hex_eval)
  then have a: "collision_free keccak_256 (hashInput keccak_256 exchange1 example_order)
     (hashInput keccak_256 exchange2 example_order)"
    by (simp add: collision_free_def)
  have "keccak_256 (word_bytes exchange1) \<noteq> keccak_256 (word_bytes exchange2)"
    by (rule keccak_256_neq [OF hash_of_exchange1 _ hash_of_exchange2]) (simp add: nibble_simps, simp add: nibble_simps, simp only: hex_eval)
  then have b: "collision_free keccak_256 (word_bytes exchange1) (word_bytes exchange2)"
    by (simp add: collision_free_def)
  have c: "exchange1 \<noteq> exchange2"
    by (simp add: exchange1_def exchange2_def)
  from a b c getOrderHash_domain_separation [OF a b c] show ?thesis
    by blast
qed


text \<open>
  C4. The variable-length fields \<open>makerAssetData\<close> and \<open>takerAssetData\<close> never enter the
  byte stream that is hashed themselves. The order hash is the hash of four words of 32
  bytes, the last of which is the hash of the inner byte string \<open>orderEncoding\<close>, the
  packed arguments of the inner call of \<open>keccak256\<close>. Whatever the lengths of the two
  fields, that string has 336 bytes; its first 272 bytes do not depend on the two fields;
  the 32 bytes at offset 272 are the hash of \<open>makerAssetData\<close> and the 32 bytes at offset
  304 the hash of \<open>takerAssetData\<close>.
\<close>

theorem asset_data_leaf_hashes:
  "getOrderHash H this order =
     H (word_bytes (DOMAIN_SEPARATOR_SCHEMA_HASH H) @ word_bytes (H (word_bytes this)) @
        word_bytes (ORDER_SCHEMA_HASH H) @ word_bytes (H (orderEncoding H order))) \<and>
   length (orderEncoding H order) = 336 \<and>
   take 272 (orderEncoding H (order\<lparr>makerAssetData := m, takerAssetData := t\<rparr>))
     = take 272 (orderEncoding H order) \<and>
   bytes_at 272 32 (orderEncoding H order) = word_bytes (H (makerAssetData order)) \<and>
   bytes_at 304 32 (orderEncoding H order) = word_bytes (H (takerAssetData order))"
proof -
  have "getOrderHash H this order =
     H (word_bytes (DOMAIN_SEPARATOR_SCHEMA_HASH H) @ word_bytes (H (word_bytes this)) @
        word_bytes (ORDER_SCHEMA_HASH H) @ word_bytes (H (orderEncoding H order)))"
    by (simp only: getOrderHash_eq hashInput_eq)
  moreover have "length (orderEncoding H order) = 336 \<and>
   take 272 (orderEncoding H (order\<lparr>makerAssetData := m, takerAssetData := t\<rparr>))
     = take 272 (orderEncoding H order) \<and>
   bytes_at 272 32 (orderEncoding H order) = word_bytes (H (makerAssetData order)) \<and>
   bytes_at 304 32 (orderEncoding H order) = word_bytes (H (takerAssetData order))"
    by (simp add: orderEncoding_eq bytes_at_def fixedFieldEncoding_def)
  ultimately show ?thesis by (rule conjI)
qed

text \<open>
  C5. The order hash is the hash of four words of 32 bytes, the last of which is the hash
  of the inner byte string \<open>orderEncoding\<close>, the packed arguments of the inner call of
  \<open>keccak256\<close>. That string holds the fields at their natural widths and in the order of
  the schema: the four addresses in 20 bytes each from offset 0, the six integers in 32
  bytes each from offset 80, then the two hashes of the asset data; reading each slot
  back as a big-endian number gives the field.
\<close>

theorem fixed_field_layout:
  "getOrderHash H this order =
     H (word_bytes (DOMAIN_SEPARATOR_SCHEMA_HASH H) @ word_bytes (H (word_bytes this)) @
        word_bytes (ORDER_SCHEMA_HASH H) @ word_bytes (H (orderEncoding H order))) \<and>
   length (orderEncoding H order) = 336 \<and>
   word_rcat (bytes_at 0 20 (orderEncoding H order)) = makerAddress order \<and>
   word_rcat (bytes_at 20 20 (orderEncoding H order)) = takerAddress order \<and>
   word_rcat (bytes_at 40 20 (orderEncoding H order)) = feeRecipientAddress order \<and>
   word_rcat (bytes_at 60 20 (orderEncoding H order)) = senderAddress order \<and>
   word_rcat (bytes_at 80 32 (orderEncoding H order)) = makerAssetAmount order \<and>
   word_rcat (bytes_at 112 32 (orderEncoding H order)) = takerAssetAmount order \<and>
   word_rcat (bytes_at 144 32 (orderEncoding H order)) = makerFee order \<and>
   word_rcat (bytes_at 176 32 (orderEncoding H order)) = takerFee order \<and>
   word_rcat (bytes_at 208 32 (orderEncoding H order)) = expirationTimeSeconds order \<and>
   word_rcat (bytes_at 240 32 (orderEncoding H order)) = salt order \<and>
   word_rcat (bytes_at 272 32 (orderEncoding H order)) = H (makerAssetData order) \<and>
   word_rcat (bytes_at 304 32 (orderEncoding H order)) = H (takerAssetData order)"
proof -
  have "getOrderHash H this order =
     H (word_bytes (DOMAIN_SEPARATOR_SCHEMA_HASH H) @ word_bytes (H (word_bytes this)) @
        word_bytes (ORDER_SCHEMA_HASH H) @ word_bytes (H (orderEncoding H order)))"
    by (simp only: getOrderHash_eq hashInput_eq)
  moreover have "length (orderEncoding H order) = 336 \<and>
   word_rcat (bytes_at 0 20 (orderEncoding H order)) = makerAddress order \<and>
   word_rcat (bytes_at 20 20 (orderEncoding H order)) = takerAddress order \<and>
   word_rcat (bytes_at 40 20 (orderEncoding H order)) = feeRecipientAddress order \<and>
   word_rcat (bytes_at 60 20 (orderEncoding H order)) = senderAddress order \<and>
   word_rcat (bytes_at 80 32 (orderEncoding H order)) = makerAssetAmount order \<and>
   word_rcat (bytes_at 112 32 (orderEncoding H order)) = takerAssetAmount order \<and>
   word_rcat (bytes_at 144 32 (orderEncoding H order)) = makerFee order \<and>
   word_rcat (bytes_at 176 32 (orderEncoding H order)) = takerFee order \<and>
   word_rcat (bytes_at 208 32 (orderEncoding H order)) = expirationTimeSeconds order \<and>
   word_rcat (bytes_at 240 32 (orderEncoding H order)) = salt order \<and>
   word_rcat (bytes_at 272 32 (orderEncoding H order)) = H (makerAssetData order) \<and>
   word_rcat (bytes_at 304 32 (orderEncoding H order)) = H (takerAssetData order)"
    by (simp add: orderEncoding_eq bytes_at_def fixedFieldEncoding_def)
  ultimately show ?thesis by (rule conjI)
qed

text \<open>
  C6. Take two different orders, that is two orders that differ in a field, if only in a
  byte of it, the asset data included, and one verifying instance. If the hash function
  does not collide on the two byte strings of the outer call, on those of the inner call,
  on the two \<open>makerAssetData\<close> nor on the two \<open>takerAssetData\<close>, the two order hashes
  differ.
\<close>

theorem getOrderHash_field_sensitive:
  assumes "collision_free H (hashInput H v order1) (hashInput H v order2)"
    and "collision_free H (orderEncoding H order1) (orderEncoding H order2)"
    and "collision_free H (makerAssetData order1) (makerAssetData order2)"
    and "collision_free H (takerAssetData order1) (takerAssetData order2)"
    and "order1 \<noteq> order2"
  shows "getOrderHash H v order1 \<noteq> getOrderHash H v order2"
proof
  assume "getOrderHash H v order1 = getOrderHash H v order2"
  with assms(1) have "hashInput H v order1 = hashInput H v order2"
    by (simp add: getOrderHash_eq collision_free_def)
  then have "H (orderEncoding H order1) = H (orderEncoding H order2)"
    by (simp add: hashInput_eq)
  with assms(2) have enc: "orderEncoding H order1 = orderEncoding H order2"
    by (simp add: collision_free_def)
  then have fixed: "fixedFieldEncoding order1 = fixedFieldEncoding order2"
    and "H (makerAssetData order1) = H (makerAssetData order2)"
    and "H (takerAssetData order1) = H (takerAssetData order2)"
    by (simp_all add: orderEncoding_eq)
  with assms(3,4) have "makerAssetData order1 = makerAssetData order2"
    and "takerAssetData order1 = takerAssetData order2"
    by (simp_all add: collision_free_def)
  with fixedFieldEncoding_inj [OF fixed] have "order1 = order2"
    by (intro Order_eqI) simp_all
  with assms(5) show False by simp
qed

theorem getOrderHash_field_sensitive_witness:
  "collision_free keccak_256 (hashInput keccak_256 exchange1 example_order)
     (hashInput keccak_256 exchange1 example_order2) \<and>
   collision_free keccak_256 (orderEncoding keccak_256 example_order)
     (orderEncoding keccak_256 example_order2) \<and>
   collision_free keccak_256 (makerAssetData example_order) (makerAssetData example_order2) \<and>
   collision_free keccak_256 (takerAssetData example_order) (takerAssetData example_order2) \<and>
   example_order \<noteq> example_order2 \<and>
   getOrderHash keccak_256 exchange1 example_order \<noteq> getOrderHash keccak_256 exchange1 example_order2"
proof -
  have "keccak_256 (hashInput keccak_256 exchange1 example_order)
      \<noteq> keccak_256 (hashInput keccak_256 exchange1 example_order2)"
    by (rule keccak_256_neq [OF hash_of_example _ hash_of_example2]) (simp add: nibble_simps, simp add: nibble_simps, simp only: hex_eval)
  then have a: "collision_free keccak_256 (hashInput keccak_256 exchange1 example_order)
     (hashInput keccak_256 exchange1 example_order2)"
    by (simp add: collision_free_def)
  have "keccak_256 (orderEncoding keccak_256 example_order)
      \<noteq> keccak_256 (orderEncoding keccak_256 example_order2)"
    by (rule keccak_256_neq [OF hash_of_fields _ hash_of_fields2]) (simp add: nibble_simps, simp add: nibble_simps, simp only: hex_eval)
  then have b: "collision_free keccak_256 (orderEncoding keccak_256 example_order)
     (orderEncoding keccak_256 example_order2)"
    by (simp add: collision_free_def)
  have c: "collision_free keccak_256 (makerAssetData example_order) (makerAssetData example_order2)"
    and d: "collision_free keccak_256 (takerAssetData example_order) (takerAssetData example_order2)"
    by (simp_all add: collision_free_def order2_data)
  have e: "example_order \<noteq> example_order2"
    by (simp add: example_order_def example_order2_def)
  from a b c d e getOrderHash_field_sensitive [OF a b c d e] show ?thesis
    by blast
qed


text \<open>
  C8. A call of \<open>getOrderHash\<close> leaves the storage of the contract as it found it.
\<close>

theorem getOrderHash_view_frame:
  "snd (getOrderHash_view H ctx st order) = st"
  by (simp add: getOrderHash_view_def)

section \<open>The order status tracker: fills\<close>












text \<open>
  The status is computed on read: once the expiration time of the order of the concrete
  vector has passed, the status read is \<open>EXPIRED\<close>, while the record keeps the status
  \<open>FULLY_FILLED\<close> that the second fill has written.
\<close>

lemma fully_filled_read_after_expiry:
  "expired (example_orders 7) 1700000000 \<and>
   getOrderInfo example_orders 1700000000
       (recordFills example_orders Map.empty 7 [(1500000000, 500), (1500000001, 1500)]) 7
     = \<lparr>orderStatus = EXPIRED, orderHash = 7, orderTakerAssetFilledAmount = 2000\<rparr> \<and>
   storedInfo
       (recordFills example_orders Map.empty 7 [(1500000000, 500), (1500000001, 1500)]) 7
     = \<lparr>orderStatus = FULLY_FILLED, orderHash = 7, orderTakerAssetFilledAmount = 2000\<rparr>"
  by (simp add: recordFill_def getOrderInfo_def storedInfo_def
      defaultInfo_def statusAt_def expired_def fillStatus_def terminal_def Let_def
      example_orders_def example_order_def)

section \<open>The orderbook channel: subscriptions and routing\<close>

lemma invoke_returning:
  "\<forall>made. \<forall>ev \<in> set evs. callbacks made ev = None \<Longrightarrow>
   invoke callbacks made evs = (made @ evs, None)"
  by (induction evs arbitrary: made) simp_all

lemma invoke_made:
  "\<exists>n. fst (invoke callbacks made evs) = made @ take n evs"
proof (induction evs arbitrary: made)
  case Nil
  then show ?case by simp
next
  case (Cons ev evs)
  show ?case
  proof (cases "callbacks made ev")
    case None
    from Cons [of "made @ [ev]"] obtain n
      where "fst (invoke callbacks (made @ [ev]) evs) = (made @ [ev]) @ take n evs" by blast
    with None have "fst (invoke callbacks made (ev # evs)) = made @ take (Suc n) (ev # evs)"
      by simp
    then show ?thesis by blast
  next
    case (Some thrown)
    then have "fst (invoke callbacks made (ev # evs)) = made @ take (Suc 0) (ev # evs)"
      by simp
    then show ?thesis by blast
  qed
qed

lemma alertAll_returning:
  assumes "onErrorReturns callbacks"
  shows "alertAllHandlersToError callbacks made ch e =
    (made @ map (\<lambda>s. OnError (handler s) (subscriptionOpts s) e) (subscriptions ch), None)"
  unfolding alertAllHandlersToError_def
  using assms by (intro invoke_returning) (auto simp: onErrorReturns_def)

lemma alertAll_made:
  "\<exists>n. fst (alertAllHandlersToError callbacks made ch e) =
     made @ take n (map (\<lambda>s. OnError (handler s) (subscriptionOpts s) e) (subscriptions ch))"
  unfolding alertAllHandlersToError_def by (rule invoke_made)

lemma alertAll_data:
  "filter isData (fst (alertAllHandlersToError callbacks made ch e)) = filter isData made"
proof -
  obtain n where "fst (alertAllHandlersToError callbacks made ch e) =
     made @ take n (map (\<lambda>s. OnError (handler s) (subscriptionOpts s) e) (subscriptions ch))"
    using alertAll_made by blast
  moreover have "filter isData (take n (map (\<lambda>s. OnError (handler s) (subscriptionOpts s) e) (subscriptions ch))) = []"
    by (auto simp: filter_empty_conv dest!: in_set_takeD)
  ultimately show ?thesis by simp
qed

lemma alerted_all:
  "\<forall>s \<in> set (subscriptions ch).
     errorAlerted (made @ map (\<lambda>s. OnError (handler s) (subscriptionOpts s) e) (subscriptions ch)) s"
  by (auto simp: errorAlerted_def)

lemma unroutable_alerts:
  assumes "onErrorReturns callbacks" and "unroutable parse ch msg"
  shows "\<exists>e. handleWebSocketMessage parse callbacks ch msg =
    (map (\<lambda>s. OnError (handler s) (subscriptionOpts s) e) (subscriptions ch), None)"
proof (cases "data msg")
  case None
  then show ?thesis
    by (simp add: handleWebSocketMessage_def alertAll_returning [OF assms(1)])
next
  case (Some d)
  show ?thesis
  proof (cases "parse d")
    case (Inl thrown)
    with Some show ?thesis
      by (simp add: handleWebSocketMessage_def routeMessage_def alertAll_returning [OF assms(1)])
  next
    case (Inr r)
    with Some assms(2) have "subscriptionAt ch (OrderbookChannelMessage.requestId r) = None"
      by (simp add: unroutable_def)
    with Some Inr show ?thesis
      by (simp add: handleWebSocketMessage_def routeMessage_def alertAll_returning [OF assms(1)])
  qed
qed

lemma handle_data:
  "filter isData (fst (handleWebSocketMessage parse callbacks ch msg)) =
     (case data msg of
        None \<Rightarrow> []
      | Some d \<Rightarrow> filter isData (fst (routeMessage parse callbacks ch d)))"
proof (cases "data msg")
  case None
  then show ?thesis
    by (simp add: handleWebSocketMessage_def alertAll_data)
next
  case (Some d)
  obtain made thrown where r: "routeMessage parse callbacks ch d = (made, thrown)"
    by (cases "routeMessage parse callbacks ch d")
  with Some show ?thesis
    by (cases thrown) (simp_all add: handleWebSocketMessage_def alertAll_data)
qed

lemma invoke_single: "fst (invoke callbacks [] [ev]) = [ev]"
  by (simp split: option.split)

lemma route_data:
  "filter isData (fst (routeMessage parse callbacks ch d)) =
     (case parse d of
        Inl thrown \<Rightarrow> []
      | Inr r \<Rightarrow>
          (case subscriptionAt ch (OrderbookChannelMessage.requestId r) of
             None \<Rightarrow> []
           | Some s \<Rightarrow>
               (case OrderbookChannelMessage.type r of
                  Snapshot \<Rightarrow> [OnSnapshot (handler s) (subscriptionOpts s) (OrderbookChannelMessage.payload r)]
                | Update \<Rightarrow> [OnUpdate (handler s) (subscriptionOpts s) (OrderbookChannelMessage.payload r)]
                | Unknown \<Rightarrow> [])))"
  by (simp add: routeMessage_def alertAll_data invoke_single
      split: sum.split option.split OrderbookChannelMessageTypes.split)

lemma unroutable_no_data:
  assumes "unroutable parse ch msg"
  shows "filter isData (invoked parse callbacks ch msg) = []"
  using assms
  by (simp add: invoked_def handle_data route_data unroutable_def split: option.splits sum.splits)

lemma data_invoked:
  assumes "ev \<in> set (invoked parse callbacks ch msg)" and "isData ev"
  shows "\<exists>d r s. data msg = Some d \<and> parse d = Inr r \<and>
     subscriptionAt ch (OrderbookChannelMessage.requestId r) = Some s \<and>
     filter isData (invoked parse callbacks ch msg) =
       (case OrderbookChannelMessage.type r of
          Snapshot \<Rightarrow> [OnSnapshot (handler s) (subscriptionOpts s) (OrderbookChannelMessage.payload r)]
        | Update \<Rightarrow> [OnUpdate (handler s) (subscriptionOpts s) (OrderbookChannelMessage.payload r)]
        | Unknown \<Rightarrow> [])"
proof -
  from assms have ne: "filter isData (invoked parse callbacks ch msg) \<noteq> []"
    by (auto simp: filter_empty_conv)
  then obtain d where d: "data msg = Some d"
    by (cases "data msg") (simp_all add: invoked_def handle_data)
  with ne obtain r where r: "parse d = Inr r"
    by (cases "parse d") (simp_all add: invoked_def handle_data route_data)
  with ne d obtain s where s: "subscriptionAt ch (OrderbookChannelMessage.requestId r) = Some s"
    by (cases "subscriptionAt ch (OrderbookChannelMessage.requestId r)")
      (simp_all add: invoked_def handle_data route_data)
  from d r s show ?thesis
    by (simp add: invoked_def handle_data route_data)
qed

text \<open>
  C9, as amended. A call of \<open>subscribe\<close> whose arguments pass the two assertions returns
  normally and appends exactly one subscription, the new one, at the end of the list:
  the subscriptions already there stay where they are. The subscribe message it builds
  carries as \<open>requestId\<close> the index of the new subscription: it is the message that the
  \<open>onopen\<close> callback of a new socket holds, or that is sent on an open socket, and the
  lookup that routes an incoming message finds the new subscription under that
  \<open>requestId\<close>.
\<close>

theorem subscribe_appends:
  assumes "isOpts opts" and "isHandler h"
  shows "\<exists>ch'. subscribe isOpts isHandler ch opts h = Inr ch' \<and>
    subscriptions ch' = subscriptions ch @ [\<lparr>subscriptionOpts = opts, handler = h\<rparr>] \<and>
    (let m = \<lparr>subscribeMessage.type = ''subscribe'', channel = ''orderbook'',
               requestId = int (length (subscriptions ch)), payload = opts\<rparr>
     in case clientIfExists ch of
          None \<Rightarrow> map_option onopen (clientIfExists ch') = Some m \<and>
                  map_option sent (clientIfExists ch') = Some []
        | Some client \<Rightarrow>
            map_option sent (clientIfExists ch') =
              Some (if readyState client = OPEN then sent client @ [m] else sent client)) \<and>
    subscriptionAt ch' (int (length (subscriptions ch)))
      = Some \<lparr>subscriptionOpts = opts, handler = h\<rparr>"
proof (cases "clientIfExists ch")
  case None
  with assms show ?thesis
    by (simp add: subscribe_def Let_def subscriptionAt_def)
next
  case (Some client)
  with assms show ?thesis
    by (simp add: subscribe_def Let_def sendMessage_def subscriptionAt_def)
qed

theorem subscribe_appends_witness:
  "''DAI/WETH'' \<noteq> '''' \<and> True \<and>
   (\<exists>ch'. subscribe (\<lambda>opts. opts \<noteq> '''') (\<lambda>h. True) example_channel ''DAI/WETH'' (2::nat) = Inr ch' \<and>
      subscriptions ch' = [\<lparr>subscriptionOpts = ''ZRX/WETH'', handler = 1\<rparr>,
                           \<lparr>subscriptionOpts = ''DAI/WETH'', handler = 2\<rparr>] \<and>
      map_option (map subscribeMessage.requestId \<circ> sent) (clientIfExists ch') = Some [0, 1] \<and>
      subscriptionAt ch' 1 = Some \<lparr>subscriptionOpts = ''DAI/WETH'', handler = 2\<rparr>)"
  using subscribe_appends [of "\<lambda>opts. opts \<noteq> ''''" "''DAI/WETH''" "\<lambda>h. True" 2 example_channel]
  by (auto simp: example_channel_def)

text \<open>
  C9 as stated speaks of every call. A call whose options fail the assertion throws,
  and no subscription is appended.
\<close>

theorem subscribe_appends_counterexample:
  "subscribe (\<lambda>opts. opts \<noteq> '''') (\<lambda>h. True) example_channel '''' (2::nat)
     = Inl (Error ''subscriptionOpts'')"
  by (simp add: subscribe_def)

text \<open>
  C10, as amended. When a message has no data, or the parser throws, or the parsed
  \<open>requestId\<close> is not the index of a subscription, then neither \<open>onSnapshot\<close> nor
  \<open>onUpdate\<close> is invoked, and, provided that no \<open>onError\<close> callback throws, \<open>onError\<close> is
  invoked on the handler of every subscription. When \<open>onSnapshot\<close> is invoked, the parser
  has returned a message of type \<open>Snapshot\<close> whose \<open>requestId\<close> is the index of a
  subscription, and that invocation, on the handler of that subscription, is the only
  invocation of \<open>onSnapshot\<close> or \<open>onUpdate\<close> for the message; likewise for \<open>onUpdate\<close> and
  the type \<open>Update\<close>.
\<close>

theorem handleWebSocketMessage_routing:
  "(unroutable parse ch msg \<longrightarrow>
      (\<forall>ev \<in> set (invoked parse callbacks ch msg). \<not> isData ev) \<and>
      (onErrorReturns callbacks \<longrightarrow>
         (\<forall>s \<in> set (subscriptions ch). errorAlerted (invoked parse callbacks ch msg) s))) \<and>
   (OnSnapshot h opts p \<in> set (invoked parse callbacks ch msg) \<longrightarrow>
      (\<exists>utf8Data parserResult subscription.
         data msg = Some utf8Data \<and> parse utf8Data = Inr parserResult \<and>
         OrderbookChannelMessage.type parserResult = Snapshot \<and>
         subscriptionAt ch (OrderbookChannelMessage.requestId parserResult) = Some subscription \<and>
         filter isData (invoked parse callbacks ch msg) =
           [OnSnapshot (handler subscription) (subscriptionOpts subscription)
              (OrderbookChannelMessage.payload parserResult)])) \<and>
   (OnUpdate h opts p \<in> set (invoked parse callbacks ch msg) \<longrightarrow>
      (\<exists>utf8Data parserResult subscription.
         data msg = Some utf8Data \<and> parse utf8Data = Inr parserResult \<and>
         OrderbookChannelMessage.type parserResult = Update \<and>
         subscriptionAt ch (OrderbookChannelMessage.requestId parserResult) = Some subscription \<and>
         filter isData (invoked parse callbacks ch msg) =
           [OnUpdate (handler subscription) (subscriptionOpts subscription)
              (OrderbookChannelMessage.payload parserResult)]))"
proof (intro conjI impI)
  assume "unroutable parse ch msg"
  then have "filter isData (invoked parse callbacks ch msg) = []"
    by (rule unroutable_no_data)
  then show "\<forall>ev \<in> set (invoked parse callbacks ch msg). \<not> isData ev"
    by (simp add: filter_empty_conv)
next
  assume "unroutable parse ch msg" and "onErrorReturns callbacks"
  then obtain e where "handleWebSocketMessage parse callbacks ch msg =
    (map (\<lambda>s. OnError (handler s) (subscriptionOpts s) e) (subscriptions ch), None)"
    using unroutable_alerts by blast
  with alerted_all [of ch "[]" e]
  show "\<forall>s \<in> set (subscriptions ch). errorAlerted (invoked parse callbacks ch msg) s"
    by (simp add: invoked_def)
next
  assume a: "OnSnapshot h opts p \<in> set (invoked parse callbacks ch msg)"
  then obtain d r s where "data msg = Some d" "parse d = Inr r"
     "subscriptionAt ch (OrderbookChannelMessage.requestId r) = Some s"
     and f: "filter isData (invoked parse callbacks ch msg) =
       (case OrderbookChannelMessage.type r of
          Snapshot \<Rightarrow> [OnSnapshot (handler s) (subscriptionOpts s) (OrderbookChannelMessage.payload r)]
        | Update \<Rightarrow> [OnUpdate (handler s) (subscriptionOpts s) (OrderbookChannelMessage.payload r)]
        | Unknown \<Rightarrow> [])"
    using data_invoked [OF a] by auto
  moreover from a have "OnSnapshot h opts p \<in> set (filter isData (invoked parse callbacks ch msg))"
    by simp
  with f have "OrderbookChannelMessage.type r = Snapshot"
    by (cases "OrderbookChannelMessage.type r") simp_all
  ultimately show "\<exists>utf8Data parserResult subscription.
         data msg = Some utf8Data \<and> parse utf8Data = Inr parserResult \<and>
         OrderbookChannelMessage.type parserResult = Snapshot \<and>
         subscriptionAt ch (OrderbookChannelMessage.requestId parserResult) = Some subscription \<and>
         filter isData (invoked parse callbacks ch msg) =
           [OnSnapshot (handler subscription) (subscriptionOpts subscription)
              (OrderbookChannelMessage.payload parserResult)]"
    by auto
next
  assume a: "OnUpdate h opts p \<in> set (invoked parse callbacks ch msg)"
  then obtain d r s where "data msg = Some d" "parse d = Inr r"
     "subscriptionAt ch (OrderbookChannelMessage.requestId r) = Some s"
     and f: "filter isData (invoked parse callbacks ch msg) =
       (case OrderbookChannelMessage.type r of
          Snapshot \<Rightarrow> [OnSnapshot (handler s) (subscriptionOpts s) (OrderbookChannelMessage.payload r)]
        | Update \<Rightarrow> [OnUpdate (handler s) (subscriptionOpts s) (OrderbookChannelMessage.payload r)]
        | Unknown \<Rightarrow> [])"
    using data_invoked [OF a] by auto
  moreover from a have "OnUpdate h opts p \<in> set (filter isData (invoked parse callbacks ch msg))"
    by simp
  with f have "OrderbookChannelMessage.type r = Update"
    by (cases "OrderbookChannelMessage.type r") simp_all
  ultimately show "\<exists>utf8Data parserResult subscription.
         data msg = Some utf8Data \<and> parse utf8Data = Inr parserResult \<and>
         OrderbookChannelMessage.type parserResult = Update \<and>
         subscriptionAt ch (OrderbookChannelMessage.requestId parserResult) = Some subscription \<and>
         filter isData (invoked parse callbacks ch msg) =
           [OnUpdate (handler subscription) (subscriptionOpts subscription)
              (OrderbookChannelMessage.payload parserResult)]"
    by auto
qed

theorem handleWebSocketMessage_routing_witness:
  "unroutable example_parse example_channel2 \<lparr>data = None\<rparr> \<and>
   unroutable example_parse example_channel2 \<lparr>data = Some ''{''\<rparr> \<and>
   unroutable example_parse example_channel2 \<lparr>data = Some ''update 7''\<rparr> \<and>
   onErrorReturns returning \<and>
   filter isData (invoked example_parse returning example_channel2 \<lparr>data = Some ''update 7''\<rparr>) = [] \<and>
   errorAlerted (invoked example_parse returning example_channel2 \<lparr>data = Some ''update 7''\<rparr>)
     \<lparr>subscriptionOpts = ''ZRX/WETH'', handler = 1\<rparr> \<and>
   errorAlerted (invoked example_parse returning example_channel2 \<lparr>data = Some ''update 7''\<rparr>)
     \<lparr>subscriptionOpts = ''DAI/WETH'', handler = 2\<rparr> \<and>
   OnSnapshot 1 ''ZRX/WETH'' ''bids''
     \<in> set (invoked example_parse returning example_channel2 \<lparr>data = Some ''snapshot 0''\<rparr>) \<and>
   filter isData (invoked example_parse returning example_channel2 \<lparr>data = Some ''snapshot 0''\<rparr>)
     = [OnSnapshot 1 ''ZRX/WETH'' ''bids''] \<and>
   OnUpdate 1 ''ZRX/WETH'' ''order''
     \<in> set (invoked example_parse returning example_channel2 \<lparr>data = Some ''update 0''\<rparr>) \<and>
   filter isData (invoked example_parse returning example_channel2 \<lparr>data = Some ''update 0''\<rparr>)
     = [OnUpdate 1 ''ZRX/WETH'' ''order'']"
proof -
  have u1: "unroutable example_parse example_channel2 \<lparr>data = None\<rparr>"
    and u2: "unroutable example_parse example_channel2 \<lparr>data = Some ''{''\<rparr>"
    and u3: "unroutable example_parse example_channel2 \<lparr>data = Some ''update 7''\<rparr>"
    by (simp_all add: unroutable_def example_parse_def example_channel2_def example_channel_def
        subscriptionAt_def)
  have r: "onErrorReturns returning"
    by (simp add: onErrorReturns_def returning_def)
  have s: "OnSnapshot 1 ''ZRX/WETH'' ''bids''
     \<in> set (invoked example_parse returning example_channel2 \<lparr>data = Some ''snapshot 0''\<rparr>)"
    and u: "OnUpdate 1 ''ZRX/WETH'' ''order''
     \<in> set (invoked example_parse returning example_channel2 \<lparr>data = Some ''update 0''\<rparr>)"
    by (simp_all add: invoked_def handleWebSocketMessage_def routeMessage_def returning_def
        example_parse_def example_channel2_def example_channel_def subscriptionAt_def)
  from handleWebSocketMessage_routing
    [of example_parse example_channel2 "\<lparr>data = Some ''update 7''\<rparr>" returning
        1 "''ZRX/WETH''" "''bids''"] u3 r
  have n: "\<forall>ev \<in> set (invoked example_parse returning example_channel2 \<lparr>data = Some ''update 7''\<rparr>).
             \<not> isData ev"
    and a: "\<forall>s \<in> set (subscriptions example_channel2).
       errorAlerted (invoked example_parse returning example_channel2 \<lparr>data = Some ''update 7''\<rparr>) s"
    by blast+
  from n have n': "filter isData
      (invoked example_parse returning example_channel2 \<lparr>data = Some ''update 7''\<rparr>) = []"
    by (simp add: filter_empty_conv)
  from a have a1: "errorAlerted
      (invoked example_parse returning example_channel2 \<lparr>data = Some ''update 7''\<rparr>)
      \<lparr>subscriptionOpts = ''ZRX/WETH'', handler = 1\<rparr>"
    and a2: "errorAlerted
      (invoked example_parse returning example_channel2 \<lparr>data = Some ''update 7''\<rparr>)
      \<lparr>subscriptionOpts = ''DAI/WETH'', handler = 2\<rparr>"
    by (simp_all add: example_channel2_def)
  from handleWebSocketMessage_routing
    [of example_parse example_channel2 "\<lparr>data = Some ''snapshot 0''\<rparr>" returning
        1 "''ZRX/WETH''" "''bids''"] s
  have b: "filter isData
      (invoked example_parse returning example_channel2 \<lparr>data = Some ''snapshot 0''\<rparr>)
     = [OnSnapshot 1 ''ZRX/WETH'' ''bids'']"
    by (auto simp: example_parse_def example_channel2_def example_channel_def subscriptionAt_def)
  from handleWebSocketMessage_routing
    [of example_parse example_channel2 "\<lparr>data = Some ''update 0''\<rparr>" returning
        1 "''ZRX/WETH''" "''order''"] u
  have c: "filter isData
      (invoked example_parse returning example_channel2 \<lparr>data = Some ''update 0''\<rparr>)
     = [OnUpdate 1 ''ZRX/WETH'' ''order'']"
    by (auto simp: example_parse_def example_channel2_def example_channel_def subscriptionAt_def)
  from u1 u2 u3 r n' a1 a2 s b u c show ?thesis by blast
qed

text \<open>
  The counterexample to C10 as stated. The message has no data, the channel has two
  subscriptions, and the \<open>onError\<close> of the first handler throws: the \<open>forEach\<close> of
  \<open>_alertAllHandlersToError\<close> is aborted after its first callback, the exception leaves
  \<open>_handleWebSocketMessage\<close> (the call at line 105 is outside the \<open>try\<close>), and the
  \<open>onError\<close> of the second subscription is never invoked.
\<close>

theorem handleWebSocketMessage_routing_counterexample:
  "unroutable example_parse example_channel2 \<lparr>data = None\<rparr> \<and>
   \<lparr>subscriptionOpts = ''DAI/WETH'', handler = 2\<rparr> \<in> set (subscriptions example_channel2) \<and>
   handleWebSocketMessage example_parse first_onError_throws example_channel2 \<lparr>data = None\<rparr>
     = ([OnError 1 ''ZRX/WETH'' (Error ''Message does not contain utf8Data'')],
        Some (Error ''handler 1 failed'')) \<and>
   \<not> errorAlerted
       (invoked example_parse first_onError_throws example_channel2 \<lparr>data = None\<rparr>)
       \<lparr>subscriptionOpts = ''DAI/WETH'', handler = 2\<rparr>"
  by (simp add: unroutable_def invoked_def errorAlerted_def handleWebSocketMessage_def
      alertAllHandlersToError_def first_onError_throws_def example_channel2_def
      example_channel_def)

text \<open>
  A throwing \<open>onSnapshot\<close> is caught (lines 136 to 138): the message was routed to the
  first subscription, and the catch alerts every handler to the error thrown.
\<close>

lemma onSnapshot_throws_caught:
  "handleWebSocketMessage example_parse first_onSnapshot_throws example_channel2
     \<lparr>data = Some ''snapshot 0''\<rparr>
     = ([OnSnapshot 1 ''ZRX/WETH'' ''bids'',
         OnError 1 ''ZRX/WETH'' (Error ''handler 1 failed''),
         OnError 2 ''DAI/WETH'' (Error ''handler 1 failed'')], None)"
  by (simp add: handleWebSocketMessage_def routeMessage_def alertAllHandlersToError_def
      first_onSnapshot_throws_def example_parse_def example_channel2_def example_channel_def
      subscriptionAt_def)

end
